theory Spec2Isabelle
  imports Main "HOL-Library.Multiset"
begin

section \<open>Errors\<close>

text \<open>
  Go errors are values. An error coming out of an imported package is opaque
  (\<open>Opaque\<close> carries its text); every \<open>errors.Wrap\<close>/\<open>errors.Wrapf\<close> of the
  discovery package is a constructor of its own that keeps the wrapped cause and the
  arguments formatted into the message.
\<close>

datatype error =
    Opaque string
  | ImageResolutionFailed string error
      \<comment> \<open>"plugins discovery image resolution failed. Please check that the repository image URL %q is correct"\<close>
  | UnableToCreateTempDirectory error
      \<comment> \<open>"unable to create temp directory"\<close>
  | FailedToDownloadOCIImage string error
      \<comment> \<open>"failed to download OCI image from discovery '%s'"\<close>
  | ErrorUpdatingInventoryDatabase error
      \<comment> \<open>"error while updating inventory database based on the inventory metadata database"\<close>
  | UnableToFetchInventoryForPlugins string error
      \<comment> \<open>"unable to fetch the inventory of discovery '%s' for plugins"\<close>
  | UnableToFetchInventoryForGroups string error
      \<comment> \<open>"unable to fetch the inventory of discovery '%s' for groups"\<close>

section \<open>The file system\<close>

text \<open>
  The permanent file system is an association list from a path to the bytes of the file
  at that path. The temporary directories of \<open>downloadInventoryDatabase\<close> are fresh and
  private to one call (\<open>os.MkdirTemp\<close>), so their content is held in local values and
  never enters this list.
\<close>

type_synonym filesystem = "(string \<times> string) list"

definition exists_file :: "string \<Rightarrow> filesystem \<Rightarrow> bool" where
  "exists_file p files \<longleftrightarrow> p \<in> set (map fst files)"

definition read_file :: "filesystem \<Rightarrow> string \<Rightarrow> string option" where
  "read_file files p = map_of files p"

definition remove_file :: "string \<Rightarrow> filesystem \<Rightarrow> filesystem" where
  "remove_file p files = filter (\<lambda>e. fst e \<noteq> p) files"

definition write_file :: "string \<Rightarrow> string \<Rightarrow> filesystem \<Rightarrow> filesystem" where
  "write_file p bytes files = (p, bytes) # remove_file p files"

text \<open>
  \<open>filepath.Join dir name\<close> for a cleaned, non-empty directory path and a name of one
  component: the two joined by the separator.
\<close>

definition filepath_Join :: "string \<Rightarrow> string \<Rightarrow> string" where
  "filepath_Join dir elem = dir @ ''/'' @ elem"

text \<open>
  \<open>filepath.Glob\<close> is only called with a pattern \<open>lit*\<close>: literal text (the cache
  directory and \<open><prefix>digest.\<close>, taken to hold no pattern metacharacter) followed by
  one star, which stands for any run of characters other than the separator.
  \<open>glob_star lit p\<close> says that the path \<open>p\<close> matches \<open>lit*\<close>. The library returns the
  matches sorted; \<open>checkDigestFileExistence\<close> reads their number, the only match when
  there is one, and removes each of them when there are several, so the order is not kept.
\<close>

definition glob_star :: "string \<Rightarrow> string \<Rightarrow> bool" where
  "glob_star lit p \<longleftrightarrow>
     take (length lit) p = lit \<and> CHR ''/'' \<notin> set (drop (length lit) p)"

definition filepath_Glob :: "string \<Rightarrow> filesystem \<Rightarrow> string list" where
  "filepath_Glob lit files = filter (glob_star lit) (map fst files)"

section \<open>Data of the discovery package\<close>

record PluginDiscoveryCriteria =
  Name :: string
  Target :: string
  Version :: string
  OS :: string
  Arch :: string

record GroupDiscoveryCriteria =
  Vendor :: string
  Publisher :: string
  Name :: string
  Version :: string

record PluginInventoryFilter =
  Name :: string
  Target :: string
  Version :: string
  OS :: string
  Arch :: string
  IncludeHidden :: bool

record PluginGroupFilter =
  Vendor :: string
  Publisher :: string
  Name :: string
  Version :: string
  IncludeHidden :: bool

text \<open>
  A Go map is iterated in an order that is not fixed; the association list
  \<open>Artifacts\<close> holds the keys in the order in which this run iterates them.
  The artifact descriptors are of a type \<open>'a\<close> that discovery only passes on.
\<close>

record 'a PluginInventoryEntry =
  Name :: string
  Target :: string
  Description :: string
  RecommendedVersion :: string
  Artifacts :: "(string \<times> 'a) list"

record 'a Discovered =
  Name :: string
  Description :: string
  RecommendedVersion :: string
  InstalledVersion :: string
  SupportedVersions :: "string list"
  Distribution :: "(string \<times> 'a) list"
  Optional :: bool
  Scope :: string
  Source :: string
  ContextName :: string
  DiscoveryType :: string
  Target :: string
  Status :: string

text \<open>
  \<open>plugininventory.PluginInventory\<close>: the catalog store. It reads the database file of
  the cache directory, so both queries take the file system as it is when they run.
  Plugin groups are of a type \<open>'g\<close> that discovery returns as the store gives them.
\<close>

record ('a, 'g) PluginInventory =
  GetPlugins :: "filesystem \<Rightarrow> PluginInventoryFilter \<Rightarrow> error + 'a PluginInventoryEntry list"
  GetPluginGroups :: "filesystem \<Rightarrow> PluginGroupFilter \<Rightarrow> error + 'g list"

text \<open>
  The methods \<open>Name\<close> and \<open>getInventory\<close> return the fields \<open>name\<close> and \<open>inventory\<close>,
  and are written as these fields.
\<close>

record ('a, 'g) DBBackedOCIDiscovery =
  name :: string
  image :: string
  pluginCriteria :: "PluginDiscoveryCriteria option"
  groupCriteria :: "GroupDiscoveryCriteria option"
  useLocalCacheOnly :: bool
  pluginDataDir :: string
  inventory :: "('a, 'g) PluginInventory"

section \<open>Imported packages\<close>

text \<open>
  What the discovery package calls and reads in packages that are not part of it:
  the digest probe, the derivation of the metadata image reference, the signature
  verifier, the image download (the files it saves, by name within the target
  directory), the update of the inventory database by the metadata database (from the
  bytes of the two files, if present, to the new bytes of the inventory database),
  \<open>os.MkdirTemp\<close> (its error at the first and second call), \<open>os.Create\<close> (its error
  at a path, if it fails there), \<open>os.Getenv\<close>,
  the semantic-version parser and order, and four constants.
  A Go function that returns values and an error returns the zero values with the error.
\<close>

record 'v packages =
  GetImageDigest :: "string \<Rightarrow> error + string"
  GetPluginInventoryMetadataImage :: "string \<Rightarrow> string"
  VerifyInventoryImageSignature :: "string \<Rightarrow> error option"
  DownloadImageAndSaveFilesToDir :: "string \<Rightarrow> error + filesystem"
  UpdatePluginInventoryDatabase :: "string option \<Rightarrow> string option \<Rightarrow> error + string option"
  MkdirTemp :: "nat \<Rightarrow> error option"
  Create :: "string \<Rightarrow> error option"
  Getenv :: "string \<Rightarrow> string"
  NewVersion :: "string \<Rightarrow> error + 'v"
  LessThan :: "'v \<Rightarrow> 'v \<Rightarrow> bool"
  DiscoveryTypeOCI :: string
  PluginScopeStandalone :: string
  PluginStatusNotInstalled :: string
  ConfigVariableIncludeDeactivatedPluginsForTesting :: string

text \<open>
  The two file names, as the comments of \<open>downloadInventoryDatabase\<close> give them.
\<close>

definition SQliteDBFileName :: string where
  "SQliteDBFileName = ''plugin_inventory.db''"

definition SQliteInventoryMetadataDBFileName :: string where
  "SQliteInventoryMetadataDBFileName = ''plugin_inventory_metadata.db''"

section \<open>The world a call runs in\<close>

text \<open>
  Every call to a remote collaborator is recorded, in order; so is every line written to
  the log or to standard error.
\<close>

datatype call =
    Probe string
  | Verify string
  | Download string
  | Merge

datatype log_line =
    TooManyDigestFiles
  | ReadingPluginInventory string
  | ErrorParsingVersions string error

record world =
  fs :: filesystem
  calls :: "call list"
  logs :: "log_line list"

definition called :: "call \<Rightarrow> world \<Rightarrow> world" where
  "called c w = w\<lparr>calls := calls w @ [c]\<rparr>"

definition logged :: "log_line \<Rightarrow> world \<Rightarrow> world" where
  "logged l w = w\<lparr>logs := logs w @ [l]\<rparr>"

text \<open>
  \<open>os.Remove\<close> on the cache directory: the source drops its error, and here it removes
  the file. \<open>os.Create\<close> can fail, and the source drops its error too: where it fails the
  file system is as it was, and where it succeeds the file is there and empty (a file
  that exists is truncated). The second component is the returned error.
\<close>

definition os_Remove :: "string \<Rightarrow> world \<Rightarrow> world" where
  "os_Remove p w = w\<lparr>fs := remove_file p (fs w)\<rparr>"

definition os_Create :: "'v packages \<Rightarrow> string \<Rightarrow> world \<Rightarrow> world \<times> error option" where
  "os_Create pk p w =
     (case Create pk p of
        Some err \<Rightarrow> (w, Some err)
      | None \<Rightarrow> (w\<lparr>fs := write_file p [] (fs w)\<rparr>, None))"

text \<open>
  Modelled from the spec: \<open>utils.CopyFile\<close>, which is not among the sources. Step 5 of
  the refresh copies the content from its temporary location into the cache directory,
  replacing any previous catalog file; a source file that does not exist is an error and
  leaves the destination as it was.
\<close>

definition CopyFile :: "string option \<Rightarrow> string \<Rightarrow> world \<Rightarrow> error option \<times> world" where
  "CopyFile src dst w =
     (case src of
        None \<Rightarrow> (Some (Opaque ''no such file or directory''), w)
      | Some bytes \<Rightarrow> (None, w\<lparr>fs := write_file dst bytes (fs w)\<rparr>))"

section \<open>Cache validation\<close>

definition digest_glob :: "('a, 'g) DBBackedOCIDiscovery \<Rightarrow> string \<Rightarrow> string" where
  "digest_glob od digestPrefix = filepath_Join (pluginDataDir od) (digestPrefix @ ''digest.'')"

definition checkDigestFileExistence ::
  "('a, 'g) DBBackedOCIDiscovery \<Rightarrow> string \<Rightarrow> string \<Rightarrow> world \<Rightarrow> string \<times> world" where
  "checkDigestFileExistence od hashHexVal0 digestPrefix w =
     (let hashHexVal = (if hashHexVal0 = [] then ''none'' else hashHexVal0);
          correctHashFile = filepath_Join (pluginDataDir od) (digestPrefix @ ''digest.'' @ hashHexVal);
          matches = filepath_Glob (digest_glob od digestPrefix) (fs w)
      in if length matches > 1 then
           (correctHashFile, fold os_Remove matches (logged TooManyDigestFiles w))
         else if length matches = 1 then
           (if matches ! 0 = correctHashFile then ([], w)
            else (correctHashFile, os_Remove (matches ! 0) w))
         else (correctHashFile, w))"

definition checkImageCache ::
  "'v packages \<Rightarrow> ('a, 'g) DBBackedOCIDiscovery \<Rightarrow> world \<Rightarrow> (error + string \<times> string) \<times> world" where
  "checkImageCache pk od w =
     (let w1 = called (Probe (image od)) w in
      case GetImageDigest pk (image od) of
        Inl err \<Rightarrow> (Inl (ImageResolutionFailed (image od) err), w1)
      | Inr hashHexValInventoryImage \<Rightarrow>
          (let (correctHashFileForInventoryImage, w2) =
                 checkDigestFileExistence od hashHexValInventoryImage [] w1;
               pluginInventoryMetadataImage = GetPluginInventoryMetadataImage pk (image od);
               w3 = called (Probe pluginInventoryMetadataImage) w2;
               hashHexValMetadataImage =
                 (case GetImageDigest pk pluginInventoryMetadataImage of
                    Inl _ \<Rightarrow> [] | Inr h \<Rightarrow> h);
               (correctHashFileForMetadataImage, w4) =
                 checkDigestFileExistence od hashHexValMetadataImage ''metadata.'' w3
           in (Inr (correctHashFileForInventoryImage, correctHashFileForMetadataImage), w4)))"

section \<open>Refresh\<close>

definition downloadInventoryDatabase ::
  "'v packages \<Rightarrow> ('a, 'g) DBBackedOCIDiscovery \<Rightarrow> world \<Rightarrow> error option \<times> world" where
  "downloadInventoryDatabase pk od w =
     (case MkdirTemp pk 1 of
        Some err \<Rightarrow> (Some (UnableToCreateTempDirectory err), w)
      | None \<Rightarrow>
     (case MkdirTemp pk 2 of
        Some err \<Rightarrow> (Some (UnableToCreateTempDirectory err), w)
      | None \<Rightarrow>
     (let w1 = called (Download (image od)) w in
      case DownloadImageAndSaveFilesToDir pk (image od) of
        Inl err \<Rightarrow> (Some (FailedToDownloadOCIImage (name od) err), w1)
      | Inr tempDir1 \<Rightarrow>
          (let inventoryDB = map_of tempDir1 SQliteDBFileName;
               pluginInventoryMetadataImage = GetPluginInventoryMetadataImage pk (image od);
               w2 = called (Download pluginInventoryMetadataImage) w1;
               dst = filepath_Join (pluginDataDir od) SQliteDBFileName
           in case DownloadImageAndSaveFilesToDir pk pluginInventoryMetadataImage of
                Inl _ \<Rightarrow> CopyFile inventoryDB dst w2
              | Inr tempDir2 \<Rightarrow>
                  (let metadataDB = map_of tempDir2 SQliteInventoryMetadataDBFileName;
                       w3 = called Merge w2
                   in case UpdatePluginInventoryDatabase pk metadataDB inventoryDB of
                        Inl err \<Rightarrow> (Some (ErrorUpdatingInventoryDatabase err), w3)
                      | Inr inventoryDB' \<Rightarrow> CopyFile inventoryDB' dst w3)))))"

definition fetchInventoryImage ::
  "'v packages \<Rightarrow> ('a, 'g) DBBackedOCIDiscovery \<Rightarrow> world \<Rightarrow> error option \<times> world" where
  "fetchInventoryImage pk od w =
     (case checkImageCache pk od w of
        (Inl err, w1) \<Rightarrow> (Some err, w1)
      | (Inr (newCacheHashFileForInventoryImage, newCacheHashFileForMetadataImage), w1) \<Rightarrow>
          if newCacheHashFileForInventoryImage = [] \<and> newCacheHashFileForMetadataImage = []
          then (None, w1)
          else
            (let w2 = called (Verify (image od)) (logged (ReadingPluginInventory (image od)) w1) in
             case VerifyInventoryImageSignature pk (image od) of
               Some err \<Rightarrow> (Some err, w2)
             | None \<Rightarrow>
                 (case downloadInventoryDatabase pk od w2 of
                    (Some err, w3) \<Rightarrow> (Some err, w3)
                  | (None, w3) \<Rightarrow>
                      (let w4 = (if newCacheHashFileForInventoryImage \<noteq> []
                                 then fst (os_Create pk newCacheHashFileForInventoryImage w3)
                                 else w3);
                           w5 = (if newCacheHashFileForMetadataImage \<noteq> []
                                 then fst (os_Create pk newCacheHashFileForMetadataImage w4)
                                 else w4)
                       in (None, w5)))))"

section \<open>Queries\<close>

text \<open>\<open>strconv.ParseBool\<close> of the Go library.\<close>

definition ParseBool :: "string \<Rightarrow> error + bool" where
  "ParseBool str =
     (if str \<in> set [''1'', ''t'', ''T'', ''TRUE'', ''true'', ''True''] then Inr True
      else if str \<in> set [''0'', ''f'', ''F'', ''FALSE'', ''false'', ''False''] then Inr False
      else Inl (Opaque ''invalid syntax''))"

text \<open>
  Modelled from the spec: \<open>utils.SortVersions\<close>, which is not among the sources. It
  sorts the slice in place by semantic-version order; a version string that fails to
  parse is reported as the returned error and the sort proceeds with best-effort
  ordering rather than aborting. Here: an insertion sort in which a string that does not
  parse is before nothing, and the error of the first string that does not parse.
  The pair is the slice after the call and the returned error.
\<close>

definition version_less :: "'v packages \<Rightarrow> string \<Rightarrow> string \<Rightarrow> bool" where
  "version_less pk x y =
     (case (NewVersion pk x, NewVersion pk y) of
        (Inr a, Inr b) \<Rightarrow> LessThan pk a b
      | _ \<Rightarrow> False)"

fun insert_version :: "'v packages \<Rightarrow> string \<Rightarrow> string list \<Rightarrow> string list" where
  "insert_version pk x [] = [x]"
| "insert_version pk x (y # ys) =
     (if version_less pk x y then x # y # ys else y # insert_version pk x ys)"

fun first_parse_error :: "'v packages \<Rightarrow> string list \<Rightarrow> error option" where
  "first_parse_error pk [] = None"
| "first_parse_error pk (v # vs) =
     (case NewVersion pk v of Inl e \<Rightarrow> Some e | Inr _ \<Rightarrow> first_parse_error pk vs)"

definition SortVersions :: "'v packages \<Rightarrow> string list \<Rightarrow> string list \<times> error option" where
  "SortVersions pk vs = (foldr (insert_version pk) vs [], first_parse_error pk vs)"

definition shouldIncludeHidden :: "'v packages \<Rightarrow> bool" where
  "shouldIncludeHidden pk =
     (case ParseBool (Getenv pk (ConfigVariableIncludeDeactivatedPluginsForTesting pk)) of
        Inl _ \<Rightarrow> False | Inr b \<Rightarrow> b)"

definition pluginFilter :: "'v packages \<Rightarrow> ('a, 'g) DBBackedOCIDiscovery \<Rightarrow> PluginInventoryFilter" where
  "pluginFilter pk od =
     (case pluginCriteria od of
        None \<Rightarrow>
          \<lparr>PluginInventoryFilter.Name = [], Target = [], Version = [], OS = [], Arch = [],
           IncludeHidden = shouldIncludeHidden pk\<rparr>
      | Some c \<Rightarrow>
          \<lparr>PluginInventoryFilter.Name = PluginDiscoveryCriteria.Name c,
           Target = PluginDiscoveryCriteria.Target c,
           Version = PluginDiscoveryCriteria.Version c,
           OS = PluginDiscoveryCriteria.OS c,
           Arch = PluginDiscoveryCriteria.Arch c,
           IncludeHidden = shouldIncludeHidden pk\<rparr>)"

text \<open>The body of the loop over the entries, and the loop.\<close>

definition discoverEntry ::
  "'v packages \<Rightarrow> ('a, 'g) DBBackedOCIDiscovery \<Rightarrow> 'a PluginInventoryEntry \<Rightarrow> world
     \<Rightarrow> 'a Discovered \<times> world" where
  "discoverEntry pk od entry w =
     (let (versions, err) = SortVersions pk (map fst (Artifacts entry));
          w' = (case err of
                  None \<Rightarrow> w
                | Some e \<Rightarrow> logged (ErrorParsingVersions (PluginInventoryEntry.Name entry) e) w);
          plugin =
            \<lparr>Discovered.Name = PluginInventoryEntry.Name entry,
             Description = PluginInventoryEntry.Description entry,
             RecommendedVersion = PluginInventoryEntry.RecommendedVersion entry,
             InstalledVersion = [],
             SupportedVersions = versions,
             Distribution = Artifacts entry,
             Optional = False,
             Scope = PluginScopeStandalone pk,
             Source = name od,
             ContextName = [],
             DiscoveryType = DiscoveryTypeOCI pk,
             Target = PluginInventoryEntry.Target entry,
             Status = PluginStatusNotInstalled pk\<rparr>
      in (plugin, w'))"

fun discoverEntries ::
  "'v packages \<Rightarrow> ('a, 'g) DBBackedOCIDiscovery \<Rightarrow> 'a PluginInventoryEntry list
     \<Rightarrow> 'a Discovered list \<Rightarrow> world \<Rightarrow> 'a Discovered list \<times> world" where
  "discoverEntries pk od [] discoveredPlugins w = (discoveredPlugins, w)"
| "discoverEntries pk od (entry # pluginEntries) discoveredPlugins w =
     (let (plugin, w') = discoverEntry pk od entry w
      in discoverEntries pk od pluginEntries (discoveredPlugins @ [plugin]) w')"

definition listPluginsFromInventory ::
  "'v packages \<Rightarrow> ('a, 'g) DBBackedOCIDiscovery \<Rightarrow> world
     \<Rightarrow> (error + 'a Discovered list) \<times> world" where
  "listPluginsFromInventory pk od w =
     (case GetPlugins (inventory od) (fs w) (pluginFilter pk od) of
        Inl err \<Rightarrow> (Inl err, w)
      | Inr pluginEntries \<Rightarrow>
          (let (discoveredPlugins, w') = discoverEntries pk od pluginEntries [] w
           in (Inr discoveredPlugins, w')))"

definition groupFilter :: "'v packages \<Rightarrow> ('a, 'g) DBBackedOCIDiscovery \<Rightarrow> PluginGroupFilter" where
  "groupFilter pk od =
     (case groupCriteria od of
        None \<Rightarrow>
          \<lparr>PluginGroupFilter.Vendor = [], Publisher = [], Name = [], Version = [],
           IncludeHidden = shouldIncludeHidden pk\<rparr>
      | Some c \<Rightarrow>
          \<lparr>PluginGroupFilter.Vendor = GroupDiscoveryCriteria.Vendor c,
           Publisher = GroupDiscoveryCriteria.Publisher c,
           Name = GroupDiscoveryCriteria.Name c,
           Version = GroupDiscoveryCriteria.Version c,
           IncludeHidden = shouldIncludeHidden pk\<rparr>)"

definition listGroupsFromInventory ::
  "'v packages \<Rightarrow> ('a, 'g) DBBackedOCIDiscovery \<Rightarrow> world \<Rightarrow> (error + 'g list) \<times> world" where
  "listGroupsFromInventory pk od w =
     (GetPluginGroups (inventory od) (fs w) (groupFilter pk od), w)"

definition List ::
  "'v packages \<Rightarrow> ('a, 'g) DBBackedOCIDiscovery \<Rightarrow> world
     \<Rightarrow> (error + 'a Discovered list) \<times> world" where
  "List pk od w =
     (if \<not> useLocalCacheOnly od then
        (case fetchInventoryImage pk od w of
           (Some err, w1) \<Rightarrow> (Inl (UnableToFetchInventoryForPlugins (name od) err), w1)
         | (None, w1) \<Rightarrow> listPluginsFromInventory pk od w1)
      else listPluginsFromInventory pk od w)"

definition GetGroups ::
  "'v packages \<Rightarrow> ('a, 'g) DBBackedOCIDiscovery \<Rightarrow> world \<Rightarrow> (error + 'g list) \<times> world" where
  "GetGroups pk od w =
     (if \<not> useLocalCacheOnly od then
        (case fetchInventoryImage pk od w of
           (Some err, w1) \<Rightarrow> (Inl (UnableToFetchInventoryForGroups (name od) err), w1)
         | (None, w1) \<Rightarrow> listGroupsFromInventory pk od w1)
      else listGroupsFromInventory pk od w)"

section \<open>Names used in the statements\<close>

text \<open>
  The marker file that \<open>checkDigestFileExistence\<close> expects for a probed digest, the
  digest that \<open>checkImageCache\<close> uses for the metadata image, the paths that the two
  patterns of marker files match, and the path of the catalog file in the cache.
\<close>

definition marker_file :: "('a, 'g) DBBackedOCIDiscovery \<Rightarrow> string \<Rightarrow> string \<Rightarrow> string" where
  "marker_file od digestPrefix v =
     filepath_Join (pluginDataDir od)
       (digestPrefix @ ''digest.'' @ (if v = [] then ''none'' else v))"

definition metadataHash :: "'v packages \<Rightarrow> ('a, 'g) DBBackedOCIDiscovery \<Rightarrow> string" where
  "metadataHash pk od =
     (case GetImageDigest pk (GetPluginInventoryMetadataImage pk (image od)) of
        Inl _ \<Rightarrow> [] | Inr h \<Rightarrow> h)"

definition is_marker :: "('a, 'g) DBBackedOCIDiscovery \<Rightarrow> string \<Rightarrow> bool" where
  "is_marker od p \<longleftrightarrow>
     glob_star (digest_glob od []) p \<or> glob_star (digest_glob od ''metadata.'') p"

definition catalog_file :: "('a, 'g) DBBackedOCIDiscovery \<Rightarrow> string" where
  "catalog_file od = filepath_Join (pluginDataDir od) SQliteDBFileName"

section \<open>A concrete discovery\<close>

text \<open>
  A discovery named \<open>default\<close> over the image \<open>img\<close> with the cache directory \<open>c\<close>,
  whose store answers from the cached database, and the packages around it: a registry
  without a metadata image, one with a metadata image whose database fails to be
  applied, one whose signature is not trusted, one that cannot be reached, one whose
  metadata image has no digest to probe but can be downloaded and applied, and a file
  system on which no marker file can be created.
\<close>

definition example_inventory :: "(unit, string) PluginInventory" where
  "example_inventory =
     \<lparr>GetPlugins = (\<lambda>files flt.
        case read_file files ''c/plugin_inventory.db'' of
          None \<Rightarrow> Inl (Opaque ''no database'')
        | Some db \<Rightarrow>
            Inr [\<lparr>PluginInventoryEntry.Name = ''builder'', Target = ''global'',
                  Description = ''Build'', RecommendedVersion = ''v1.10.0'',
                  Artifacts = [(''v1.2.0'', ()), (''bogus'', ()), (''v1.10.0'', ())]\<rparr>,
                 \<lparr>PluginInventoryEntry.Name = ''test'', Target = ''global'',
                  Description = ''Test'', RecommendedVersion = ''v0.1.0'',
                  Artifacts = [(''v0.1.0'', ())]\<rparr>]),
      GetPluginGroups = (\<lambda>files flt. Inr [''vmware-tkg/default:v1.0.0''])\<rparr>"

definition example_od :: "(unit, string) DBBackedOCIDiscovery" where
  "example_od =
     \<lparr>name = ''default'', image = ''img'', pluginCriteria = None, groupCriteria = None,
      useLocalCacheOnly = False, pluginDataDir = ''c'', inventory = example_inventory\<rparr>"

definition example_packages :: "nat packages" where
  "example_packages =
     \<lparr>GetImageDigest = (\<lambda>r. if r = ''img'' then Inr ''d1'' else Inl (Opaque ''not found'')),
      GetPluginInventoryMetadataImage = (\<lambda>r. ''meta''),
      VerifyInventoryImageSignature = (\<lambda>r. None),
      DownloadImageAndSaveFilesToDir =
        (\<lambda>r. if r = ''img'' then Inr [(''plugin_inventory.db'', ''DB1'')]
             else Inl (Opaque ''not found'')),
      UpdatePluginInventoryDatabase = (\<lambda>m d. Inl (Opaque ''merge failed'')),
      MkdirTemp = (\<lambda>n. None),
      Create = (\<lambda>p. None),
      Getenv = (\<lambda>k. []),
      NewVersion = (\<lambda>s. if s = ''bogus'' then Inl (Opaque ''Invalid Semantic Version'')
                        else Inr (length s)),
      LessThan = (\<lambda>a b. a < b),
      DiscoveryTypeOCI = ''oci'',
      PluginScopeStandalone = ''Standalone'',
      PluginStatusNotInstalled = ''not installed'',
      ConfigVariableIncludeDeactivatedPluginsForTesting = ''INCLUDE_DEACTIVATED''\<rparr>"

definition airgapped_packages :: "nat packages" where
  "airgapped_packages =
     example_packages
       \<lparr>GetImageDigest := (\<lambda>r. if r = ''img'' then Inr ''d1''
                              else if r = ''meta'' then Inr ''d2''
                              else Inl (Opaque ''not found'')),
        DownloadImageAndSaveFilesToDir :=
          (\<lambda>r. if r = ''img'' then Inr [(''plugin_inventory.db'', ''DB1'')]
               else if r = ''meta'' then Inr [(''plugin_inventory_metadata.db'', ''M1'')]
               else Inl (Opaque ''not found''))\<rparr>"

definition untrusted_packages :: "nat packages" where
  "untrusted_packages =
     example_packages\<lparr>VerifyInventoryImageSignature := (\<lambda>r. Some (Opaque ''no signature''))\<rparr>"

definition unreachable_packages :: "nat packages" where
  "unreachable_packages =
     example_packages\<lparr>GetImageDigest := (\<lambda>r. Inl (Opaque ''not found''))\<rparr>"

definition flaky_packages :: "nat packages" where
  "flaky_packages =
     example_packages
       \<lparr>DownloadImageAndSaveFilesToDir :=
          (\<lambda>r. if r = ''img'' then Inr [(''plugin_inventory.db'', ''DB1'')]
               else if r = ''meta'' then Inr [(''plugin_inventory_metadata.db'', ''M1'')]
               else Inl (Opaque ''not found'')),
        UpdatePluginInventoryDatabase :=
          (\<lambda>m d. case (m, d) of
                    (Some a, Some b) \<Rightarrow> Inr (Some (b @ ''+'' @ a))
                  | _ \<Rightarrow> Inl (Opaque ''merge failed''))\<rparr>"


definition empty_world :: world where
  "empty_world = \<lparr>fs = [], calls = [], logs = []\<rparr>"

definition stale_world :: world where
  "stale_world =
     \<lparr>fs = [(''c/plugin_inventory.db'', ''DB0''), (''c/digest.d0'', []),
            (''c/metadata.digest.none'', [])],
      calls = [], logs = []\<rparr>"

definition current_world :: world where
  "current_world =
     \<lparr>fs = [(''c/plugin_inventory.db'', ''DB1''), (''c/digest.d1'', []),
            (''c/metadata.digest.none'', [])],
      calls = [], logs = []\<rparr>"


section \<open>Properties of the cache check and the refresh\<close>

lemma fs_called [simp]: "fs (called c w) = fs w"
  and calls_called [simp]: "calls (called c w) = calls w @ [c]"
  and logs_called [simp]: "logs (called c w) = logs w"
  by (simp_all add: called_def)

lemma fs_logged [simp]: "fs (logged l w) = fs w"
  and calls_logged [simp]: "calls (logged l w) = calls w"
  and logs_logged [simp]: "logs (logged l w) = logs w @ [l]"
  by (simp_all add: logged_def)

lemma fs_os_Remove [simp]: "fs (os_Remove p w) = remove_file p (fs w)"
  and calls_os_Remove [simp]: "calls (os_Remove p w) = calls w"
  and logs_os_Remove [simp]: "logs (os_Remove p w) = logs w"
  by (simp_all add: os_Remove_def)

lemma fs_os_Create:
  "fs (fst (os_Create pk p w)) = (if Create pk p = None then write_file p [] (fs w) else fs w)"
  by (simp add: os_Create_def split: option.splits)

lemma calls_os_Create [simp]: "calls (fst (os_Create pk p w)) = calls w"
  and logs_os_Create [simp]: "logs (fst (os_Create pk p w)) = logs w"
  by (simp_all add: os_Create_def split: option.splits)

lemma fold_os_Remove:
  "fs (fold os_Remove ps w) = filter (\<lambda>e. fst e \<notin> set ps) (fs w)
   \<and> calls (fold os_Remove ps w) = calls w \<and> logs (fold os_Remove ps w) = logs w"
proof (induction ps arbitrary: w)
  case Nil
  show ?case by simp
next
  case (Cons p ps)
  have "filter (\<lambda>e. fst e \<notin> set ps) (remove_file p (fs w))
        = filter (\<lambda>e. fst e \<notin> set (p # ps)) (fs w)"
    by (auto simp: remove_file_def intro: filter_cong)
  with Cons [of "os_Remove p w"] show ?case by simp
qed

lemma read_file_filter:
  "read_file (filter (\<lambda>e. P (fst e)) files) p = (if P p then read_file files p else None)"
  by (induction files) (auto simp: read_file_def)


lemma read_file_remove_file:
  "read_file (remove_file m files) p = (if p = m then None else read_file files p)"
  unfolding remove_file_def using read_file_filter [of "\<lambda>q. q \<noteq> m" files p] by simp




lemma Glob_singleton:
  assumes "filepath_Glob lit files = [m]"
  shows "remove_file m files = filter (\<lambda>e. \<not> glob_star lit (fst e)) files"
proof -
  have "set (filepath_Glob lit files) = {m}" using assms by simp
  then have "\<And>e. e \<in> set files \<Longrightarrow> glob_star lit (fst e) \<longleftrightarrow> fst e = m"
    by (auto simp: filepath_Glob_def)
  then show ?thesis
    unfolding remove_file_def by (auto intro: filter_cong)
qed

lemma Glob_empty:
  assumes "filepath_Glob lit files = []"
  shows "filter (\<lambda>e. \<not> glob_star lit (fst e)) files = files"
  using assms by (auto simp: filepath_Glob_def filter_empty_conv filter_id_conv)

lemma Glob_all:
  "filter (\<lambda>e. fst e \<notin> set (filepath_Glob lit files)) files
   = filter (\<lambda>e. \<not> glob_star lit (fst e)) files"
  by (auto simp: filepath_Glob_def intro: filter_cong)



lemma marker_file_nonempty: "marker_file od pre v \<noteq> []"
  by (simp add: marker_file_def filepath_Join_def)

lemma read_file_unmatch:
  "read_file (filter (\<lambda>e. \<not> glob_star lit (fst e)) files) p
   = (if glob_star lit p then None else read_file files p)"
  using read_file_filter [of "\<lambda>q. \<not> glob_star lit q" files p] by simp

lemma Glob_unmatch:
  "filepath_Glob lit (filter (\<lambda>e. \<not> glob_star lit (fst e)) files) = []"
  by (induction files) (auto simp: filepath_Glob_def)

lemma checkDigestFileExistence_many:
  assumes "length (filepath_Glob (digest_glob od pre) (fs w)) > 1"
  shows "checkDigestFileExistence od v pre w
         = (marker_file od pre v,
            fold os_Remove (filepath_Glob (digest_glob od pre) (fs w)) (logged TooManyDigestFiles w))"
  using assms by (simp add: checkDigestFileExistence_def marker_file_def Let_def)

lemma checkDigestFileExistence_one:
  assumes "filepath_Glob (digest_glob od pre) (fs w) = [m]"
  shows "checkDigestFileExistence od v pre w
         = (if m = marker_file od pre v then ([], w) else (marker_file od pre v, os_Remove m w))"
  using assms by (simp add: checkDigestFileExistence_def marker_file_def Let_def)

lemma checkDigestFileExistence_none:
  assumes "filepath_Glob (digest_glob od pre) (fs w) = []"
  shows "checkDigestFileExistence od v pre w = (marker_file od pre v, w)"
  using assms by (simp add: checkDigestFileExistence_def marker_file_def Let_def)

lemma list_three_cases:
  obtains (many) "length xs > 1" | (one) m where "xs = [m]" | (none) "xs = []"
proof (cases xs)
  case Nil
  then show ?thesis by (rule none)
next
  case (Cons a ys)
  show ?thesis
  proof (cases ys)
    case Nil
    with Cons show ?thesis by (intro one [of a]) simp
  next
    case (Cons b zs)
    with \<open>xs = a # ys\<close> show ?thesis by (intro many) simp
  qed
qed

lemma checkDigestFileExistence_result:
  assumes "checkDigestFileExistence od v pre w = (r, w')"
  shows "calls w' = calls w"
    and "r = [] \<or> r = marker_file od pre v"
    and "r = [] \<Longrightarrow> w' = w \<and> filepath_Glob (digest_glob od pre) (fs w) = [marker_file od pre v]"
    and "r \<noteq> [] \<Longrightarrow> fs w' = filter (\<lambda>e. \<not> glob_star (digest_glob od pre) (fst e)) (fs w)"
proof -
  let ?ms = "filepath_Glob (digest_glob od pre) (fs w)"
  let ?e = "marker_file od pre v"
  let ?un = "filter (\<lambda>e. \<not> glob_star (digest_glob od pre) (fst e)) (fs w)"
  have ne: "?e \<noteq> []" by (rule marker_file_nonempty)
  have "calls w' = calls w \<and> (r = [] \<or> r = ?e)
      \<and> (r = [] \<longrightarrow> w' = w \<and> ?ms = [?e]) \<and> (r \<noteq> [] \<longrightarrow> fs w' = ?un)"
  proof (cases ?ms rule: list_three_cases)
    case many
    from checkDigestFileExistence_many [OF many, of v] assms
    have r: "r = ?e" and w': "w' = fold os_Remove ?ms (logged TooManyDigestFiles w)"
      by simp_all
    have "fs w' = ?un" "calls w' = calls w"
      unfolding w' by (simp_all add: fold_os_Remove Glob_all)
    with r ne show ?thesis by simp
  next
    case (one m)
    show ?thesis
    proof (cases "m = ?e")
      case True
      with checkDigestFileExistence_one [OF one, of v] assms one show ?thesis by simp
    next
      case False
      with checkDigestFileExistence_one [OF one, of v] assms
      have r: "r = ?e" and w': "w' = os_Remove m w" by simp_all
      have "fs w' = ?un" "calls w' = calls w"
        unfolding w' using Glob_singleton [OF one] by simp_all
      with r ne show ?thesis by simp
    qed
  next
    case none
    from checkDigestFileExistence_none [OF none, of v] assms
    have r: "r = ?e" and w': "w' = w" by simp_all
    with ne Glob_empty [OF none] show ?thesis by simp
  qed
  then show "calls w' = calls w" and "r = [] \<or> r = marker_file od pre v"
    and "r = [] \<Longrightarrow> w' = w \<and> filepath_Glob (digest_glob od pre) (fs w) = [marker_file od pre v]"
    and "r \<noteq> [] \<Longrightarrow> fs w' = filter (\<lambda>e. \<not> glob_star (digest_glob od pre) (fst e)) (fs w)"
    by blast+
qed

lemma checkDigestFileExistence_frame:
  assumes "checkDigestFileExistence od v pre w = (r, w')"
  shows "read_file (fs w') p = read_file (fs w) p
         \<or> (glob_star (digest_glob od pre) p \<and> read_file (fs w') p = None)"
proof (cases "r = []")
  case True
  with checkDigestFileExistence_result(3) [OF assms] show ?thesis by simp
next
  case False
  with checkDigestFileExistence_result(4) [OF assms] show ?thesis
    by (simp add: read_file_unmatch)
qed

lemma checkImageCache_error:
  assumes "GetImageDigest pk (image od) = Inl e"
  shows "checkImageCache pk od w
         = (Inl (ImageResolutionFailed (image od) e), called (Probe (image od)) w)"
  using assms by (simp add: checkImageCache_def)

lemma checkImageCache_unfold:
  assumes "GetImageDigest pk (image od) = Inr h"
  shows "checkImageCache pk od w =
     (let r1 = checkDigestFileExistence od h [] (called (Probe (image od)) w);
          r2 = checkDigestFileExistence od (metadataHash pk od) ''metadata.''
                 (called (Probe (GetPluginInventoryMetadataImage pk (image od))) (snd r1))
      in (Inr (fst r1, fst r2), snd r2))"
  unfolding checkImageCache_def metadataHash_def Let_def
  by (simp only: assms sum.case case_prod_beta)

lemma checkImageCache_success:
  assumes "GetImageDigest pk (image od) = Inr h"
  shows "\<exists>f1 f2 w1 w2.
    checkImageCache pk od w = (Inr (f1, f2), w2)
    \<and> checkDigestFileExistence od h [] (called (Probe (image od)) w) = (f1, w1)
    \<and> checkDigestFileExistence od (metadataHash pk od) ''metadata.''
       (called (Probe (GetPluginInventoryMetadataImage pk (image od))) w1) = (f2, w2)"
proof -
  let ?r1 = "checkDigestFileExistence od h [] (called (Probe (image od)) w)"
  let ?r2 = "checkDigestFileExistence od (metadataHash pk od) ''metadata.''
       (called (Probe (GetPluginInventoryMetadataImage pk (image od))) (snd ?r1))"
  have "checkImageCache pk od w = (Inr (fst ?r1, fst ?r2), snd ?r2)"
    using checkImageCache_unfold [OF assms, of w] by (simp only: Let_def)
  moreover have "?r1 = (fst ?r1, snd ?r1)" "?r2 = (fst ?r2, snd ?r2)"
    by simp_all
  ultimately show ?thesis by (intro exI conjI)
qed

lemma checkImageCache_calls:
  assumes "checkImageCache pk od w = (Inr (f1, f2), w2)"
  shows "calls w2 = calls w @ [Probe (image od), Probe (GetPluginInventoryMetadataImage pk (image od))]"
proof (cases "GetImageDigest pk (image od)")
  case (Inl e)
  with checkImageCache_error [OF Inl, of w] assms show ?thesis by simp
next
  case (Inr h)
  from checkImageCache_success [OF Inr, of w] obtain g1 g2 v1 v2 where
    s: "checkImageCache pk od w = (Inr (g1, g2), v2)"
    and a: "checkDigestFileExistence od h [] (called (Probe (image od)) w) = (g1, v1)"
    and b: "checkDigestFileExistence od (metadataHash pk od) ''metadata.''
       (called (Probe (GetPluginInventoryMetadataImage pk (image od))) v1) = (g2, v2)"
    by (elim exE conjE)
  from s assms have v2: "v2 = w2" by simp
  have "calls v1 = calls w @ [Probe (image od)]"
    using checkDigestFileExistence_result(1) [OF a] by simp
  moreover have "calls v2 = calls v1 @ [Probe (GetPluginInventoryMetadataImage pk (image od))]"
    using checkDigestFileExistence_result(1) [OF b] by simp
  ultimately show ?thesis unfolding v2 by simp
qed

lemma checkImageCache_frame:
  assumes "checkImageCache pk od w = (res, w2)"
  shows "read_file (fs w2) p = read_file (fs w) p
         \<or> (is_marker od p \<and> read_file (fs w2) p = None)"
proof (cases "GetImageDigest pk (image od)")
  case (Inl e)
  with assms checkImageCache_error [OF Inl, of w] show ?thesis by auto
next
  case (Inr h)
  from checkImageCache_success [OF Inr, of w] obtain g1 g2 v1 v2 where
    s: "checkImageCache pk od w = (Inr (g1, g2), v2)"
    and a: "checkDigestFileExistence od h [] (called (Probe (image od)) w) = (g1, v1)"
    and b: "checkDigestFileExistence od (metadataHash pk od) ''metadata.''
       (called (Probe (GetPluginInventoryMetadataImage pk (image od))) v1) = (g2, v2)"
    by (elim exE conjE)
  from s assms have v2: "v2 = w2" by simp
  from checkDigestFileExistence_frame [OF a, of p] checkDigestFileExistence_frame [OF b, of p] v2
  show ?thesis by (auto simp: is_marker_def)
qed


lemma exists_file_read_file: "exists_file p files \<longleftrightarrow> read_file files p \<noteq> None"
  by (simp add: exists_file_def read_file_def map_of_eq_None_iff)

lemma glob_star_append:
  "glob_star (dir @ lit) (dir @ rest) \<longleftrightarrow> glob_star lit rest"
  by (simp add: glob_star_def)

lemma catalog_file_not_marker: "\<not> is_marker od (catalog_file od)"
  by (simp add: is_marker_def catalog_file_def digest_glob_def filepath_Join_def
        SQliteDBFileName_def glob_star_append) (simp add: glob_star_def)

lemma downloadInventoryDatabase_merge_fails:
  assumes "MkdirTemp pk 1 = None" "MkdirTemp pk 2 = None"
    and "DownloadImageAndSaveFilesToDir pk (image od) = Inr tempDir1"
    and "DownloadImageAndSaveFilesToDir pk (GetPluginInventoryMetadataImage pk (image od)) = Inr tempDir2"
    and "UpdatePluginInventoryDatabase pk (map_of tempDir2 SQliteInventoryMetadataDBFileName)
           (map_of tempDir1 SQliteDBFileName) = Inl e"
  shows "downloadInventoryDatabase pk od w =
     (Some (ErrorUpdatingInventoryDatabase e),
      called Merge (called (Download (GetPluginInventoryMetadataImage pk (image od)))
        (called (Download (image od)) w)))"
  using assms by (simp add: downloadInventoryDatabase_def Let_def)

lemma downloadInventoryDatabase_no_overlay:
  assumes "MkdirTemp pk 1 = None" "MkdirTemp pk 2 = None"
    and "DownloadImageAndSaveFilesToDir pk (image od) = Inr tempDir1"
    and "DownloadImageAndSaveFilesToDir pk (GetPluginInventoryMetadataImage pk (image od)) = Inl e"
  shows "downloadInventoryDatabase pk od w =
     CopyFile (map_of tempDir1 SQliteDBFileName) (catalog_file od)
       (called (Download (GetPluginInventoryMetadataImage pk (image od)))
         (called (Download (image od)) w))"
  using assms by (simp add: downloadInventoryDatabase_def catalog_file_def Let_def)

lemma fetchInventoryImage_refresh:
  assumes "checkImageCache pk od w = (Inr (f1, f2), w1)" and "f1 \<noteq> [] \<or> f2 \<noteq> []"
  shows "fetchInventoryImage pk od w =
     (let w2 = called (Verify (image od)) (logged (ReadingPluginInventory (image od)) w1) in
      case VerifyInventoryImageSignature pk (image od) of
        Some err \<Rightarrow> (Some err, w2)
      | None \<Rightarrow>
         (case downloadInventoryDatabase pk od w2 of
            (Some err, w3) \<Rightarrow> (Some err, w3)
          | (None, w3) \<Rightarrow>
              (None, (if f2 \<noteq> [] then (\<lambda>v. fst (os_Create pk f2 v)) else id)
                       ((if f1 \<noteq> [] then (\<lambda>v. fst (os_Create pk f1 v)) else id) w3))))"
  using assms
  by (auto simp: fetchInventoryImage_def Let_def split: option.splits prod.splits)

lemma fetchInventoryImage_current:
  assumes "checkImageCache pk od w = (Inr ([], []), w1)"
  shows "fetchInventoryImage pk od w = (None, w1)"
  using assms by (simp add: fetchInventoryImage_def)

text \<open>
  Claim C4. When the digest probe of the base image fails, \<open>checkImageCache\<close> returns an
  error that carries the image reference and the cause, \<open>fetchInventoryImage\<close> returns
  that error, the probe is the only call made, and the file system is as it was.
\<close>

theorem base_probe_failure_aborts:
  assumes "GetImageDigest pk (image od) = Inl e"
  shows "checkImageCache pk od w
           = (Inl (ImageResolutionFailed (image od) e), called (Probe (image od)) w)
       \<and> fetchInventoryImage pk od w
           = (Some (ImageResolutionFailed (image od) e), called (Probe (image od)) w)
       \<and> fs (snd (fetchInventoryImage pk od w)) = fs w
       \<and> calls (snd (fetchInventoryImage pk od w)) = calls w @ [Probe (image od)]"
  using checkImageCache_error [OF assms, of w] by (simp add: fetchInventoryImage_def)

theorem base_probe_failure_aborts_witness:
  "GetImageDigest unreachable_packages (image example_od) = Inl (Opaque ''not found'')
   \<and> fetchInventoryImage unreachable_packages example_od stale_world
       = (Some (ImageResolutionFailed ''img'' (Opaque ''not found'')),
          stale_world\<lparr>calls := [Probe ''img'']\<rparr>)"
proof -
  have h: "GetImageDigest unreachable_packages (image example_od) = Inl (Opaque ''not found'')"
    by (simp add: unreachable_packages_def example_packages_def)
  have "image example_od = ''img''" by (simp add: example_od_def)
  with base_probe_failure_aborts [OF h, of stale_world] h show ?thesis
    by (simp add: called_def stale_world_def)
qed

text \<open>
  Claim C6, as the code has it. When the cache check asks for a refresh (one of the two
  marker paths is not empty), the calls of \<open>fetchInventoryImage\<close> are the two probes,
  then the signature verification of the base image, then whatever follows: no download
  comes before the verification. When the verification fails, its error is returned, no
  call follows it, and the file system is as the cache check left it: every file that is
  not a digest marker has the bytes it had before the call, and every file that exists
  afterwards existed before the call with the same bytes, so nothing was downloaded and
  no marker was created. The markers that the cache check deleted stay deleted.
\<close>

theorem verification_precedes_download:
  assumes "checkImageCache pk od w = (Inr (f1, f2), w1)" and "f1 \<noteq> [] \<or> f2 \<noteq> []"
  shows "(\<exists>rest. calls (snd (fetchInventoryImage pk od w))
            = calls w @ [Probe (image od), Probe (GetPluginInventoryMetadataImage pk (image od)),
                         Verify (image od)] @ rest)
       \<and> (\<forall>e. VerifyInventoryImageSignature pk (image od) = Some e \<longrightarrow>
             fst (fetchInventoryImage pk od w) = Some e
           \<and> calls (snd (fetchInventoryImage pk od w))
               = calls w @ [Probe (image od), Probe (GetPluginInventoryMetadataImage pk (image od)),
                            Verify (image od)]
           \<and> fs (snd (fetchInventoryImage pk od w)) = fs w1
           \<and> (\<forall>p. \<not> is_marker od p \<longrightarrow>
                 read_file (fs (snd (fetchInventoryImage pk od w))) p = read_file (fs w) p)
           \<and> (\<forall>p. exists_file p (fs (snd (fetchInventoryImage pk od w))) \<longrightarrow>
                 read_file (fs (snd (fetchInventoryImage pk od w))) p = read_file (fs w) p))"
proof -
  let ?w2 = "called (Verify (image od)) (logged (ReadingPluginInventory (image od)) w1)"
  have c1: "calls w1 = calls w @ [Probe (image od), Probe (GetPluginInventoryMetadataImage pk (image od))]"
    by (rule checkImageCache_calls [OF assms(1)])
  have frame: "read_file (fs w1) p = read_file (fs w) p" if "exists_file p (fs w1)" for p
    using that checkImageCache_frame [OF assms(1), of p] by (auto simp: exists_file_read_file)
  have other: "read_file (fs w1) p = read_file (fs w) p" if "\<not> is_marker od p" for p
    using that checkImageCache_frame [OF assms(1), of p] by blast
  have ext: "\<exists>rest. calls (snd (downloadInventoryDatabase pk od ?w2)) = calls ?w2 @ rest"
    by (auto simp: downloadInventoryDatabase_def CopyFile_def Let_def
          split: option.splits sum.splits)
  show ?thesis
  proof (cases "VerifyInventoryImageSignature pk (image od)")
    case (Some e)
    with fetchInventoryImage_refresh [OF assms] have "fetchInventoryImage pk od w = (Some e, ?w2)"
      by (simp add: Let_def)
    with Some c1 frame other show ?thesis by simp
  next
    case None
    from ext obtain rest where
      r: "calls (snd (downloadInventoryDatabase pk od ?w2)) = calls ?w2 @ rest" by blast
    have "calls (snd (fetchInventoryImage pk od w)) = calls ?w2 @ rest"
      using fetchInventoryImage_refresh [OF assms] None r
      by (auto simp: Let_def split: prod.splits option.splits)
    with None c1 show ?thesis by simp
  qed
qed

theorem verification_precedes_download_witness:
  "checkImageCache untrusted_packages example_od stale_world
     = (Inr (''c/digest.d1'', []),
        \<lparr>fs = [(''c/plugin_inventory.db'', ''DB0''), (''c/metadata.digest.none'', [])],
         calls = [Probe ''img'', Probe ''meta''], logs = []\<rparr>)
   \<and> fst (fetchInventoryImage untrusted_packages example_od stale_world)
       = Some (Opaque ''no signature'')
   \<and> calls (snd (fetchInventoryImage untrusted_packages example_od stale_world))
       = [Probe ''img'', Probe ''meta'', Verify ''img'']
   \<and> fs (snd (fetchInventoryImage untrusted_packages example_od stale_world))
       = [(''c/plugin_inventory.db'', ''DB0''), (''c/metadata.digest.none'', [])]"
proof -
  have c: "checkImageCache untrusted_packages example_od stale_world
     = (Inr (''c/digest.d1'', []),
        \<lparr>fs = [(''c/plugin_inventory.db'', ''DB0''), (''c/metadata.digest.none'', [])],
         calls = [Probe ''img'', Probe ''meta''], logs = []\<rparr>)"
    by code_simp
  have v: "VerifyInventoryImageSignature untrusted_packages (image example_od)
           = Some (Opaque ''no signature'')"
    by code_simp
  have i: "image example_od = ''img''"
    and g: "GetPluginInventoryMetadataImage untrusted_packages ''img'' = ''meta''"
    and s: "calls stale_world = []"
    by code_simp+
  from verification_precedes_download [OF c] v i g s c show ?thesis by simp
qed


text \<open>
  A cache with a catalog and the marker of an older digest, and a signature that is not
  trusted: the cache check asks for the refresh, the verification fails, and the marker
  of the older digest is gone.
\<close>

theorem verification_failure_after_marker_removal:
  "fst (checkImageCache untrusted_packages example_od stale_world)
     = Inr (''c/digest.d1'', [])
   \<and> fst (fetchInventoryImage untrusted_packages example_od stale_world)
       = Some (Opaque ''no signature'')
   \<and> read_file (fs stale_world) ''c/digest.d0'' = Some []
   \<and> read_file (fs (snd (fetchInventoryImage untrusted_packages example_od stale_world)))
        ''c/digest.d0'' = None
   \<and> fs (snd (fetchInventoryImage untrusted_packages example_od stale_world))
       \<noteq> fs stale_world"
  by code_simp

text \<open>
  Claim C2, as the code has it. When the cache check asks for a refresh, the signature is
  trusted, both images are downloaded and the update of the inventory database by the
  metadata database fails, \<open>fetchInventoryImage\<close> returns that failure, the file system
  is as the cache check left it, the catalog file and every other file that is not a
  digest marker have the bytes they had before the call, and every file that exists
  afterwards existed before the call with the same bytes: nothing is promoted and no
  marker is created. The markers that the cache check deleted stay deleted.
\<close>

theorem merge_failure_keeps_catalog:
  assumes "checkImageCache pk od w = (Inr (f1, f2), w1)" and "f1 \<noteq> [] \<or> f2 \<noteq> []"
    and "VerifyInventoryImageSignature pk (image od) = None"
    and "MkdirTemp pk 1 = None" and "MkdirTemp pk 2 = None"
    and "DownloadImageAndSaveFilesToDir pk (image od) = Inr tempDir1"
    and "DownloadImageAndSaveFilesToDir pk (GetPluginInventoryMetadataImage pk (image od)) = Inr tempDir2"
    and "UpdatePluginInventoryDatabase pk (map_of tempDir2 SQliteInventoryMetadataDBFileName)
           (map_of tempDir1 SQliteDBFileName) = Inl e"
  shows "fst (fetchInventoryImage pk od w) = Some (ErrorUpdatingInventoryDatabase e)
       \<and> fs (snd (fetchInventoryImage pk od w)) = fs w1
       \<and> read_file (fs (snd (fetchInventoryImage pk od w))) (catalog_file od)
           = read_file (fs w) (catalog_file od)
       \<and> (\<forall>p. \<not> is_marker od p \<longrightarrow>
             read_file (fs (snd (fetchInventoryImage pk od w))) p = read_file (fs w) p)
       \<and> (\<forall>p. exists_file p (fs (snd (fetchInventoryImage pk od w))) \<longrightarrow>
             read_file (fs (snd (fetchInventoryImage pk od w))) p = read_file (fs w) p)"
proof -
  let ?w2 = "called (Verify (image od)) (logged (ReadingPluginInventory (image od)) w1)"
  let ?w3 = "called Merge (called (Download (GetPluginInventoryMetadataImage pk (image od)))
        (called (Download (image od)) ?w2))"
  have d: "downloadInventoryDatabase pk od ?w2 = (Some (ErrorUpdatingInventoryDatabase e), ?w3)"
    by (rule downloadInventoryDatabase_merge_fails [OF assms(4-8)])
  have f: "fetchInventoryImage pk od w = (Some (ErrorUpdatingInventoryDatabase e), ?w3)"
    using fetchInventoryImage_refresh [OF assms(1,2)] assms(3) d by (simp add: Let_def)
  have fs3: "fs ?w3 = fs w1" by simp
  have frame: "read_file (fs w1) p = read_file (fs w) p \<or> (is_marker od p \<and> read_file (fs w1) p = None)"
    for p by (rule checkImageCache_frame [OF assms(1)])
  have a: "read_file (fs w1) p = read_file (fs w) p" if "\<not> is_marker od p" for p
    using frame [of p] that by blast
  have b: "read_file (fs w1) p = read_file (fs w) p" if "exists_file p (fs w1)" for p
    using frame [of p] that by (auto simp: exists_file_read_file)
  from a [OF catalog_file_not_marker] a b show ?thesis
    unfolding f fst_conv snd_conv fs3 by blast
qed

theorem merge_failure_keeps_catalog_witness:
  "fetchInventoryImage airgapped_packages example_od stale_world
     = (Some (ErrorUpdatingInventoryDatabase (Opaque ''merge failed'')),
        \<lparr>fs = [(''c/plugin_inventory.db'', ''DB0'')],
         calls = [Probe ''img'', Probe ''meta'', Verify ''img'', Download ''img'',
                  Download ''meta'', Merge],
         logs = [ReadingPluginInventory ''img'']\<rparr>)
   \<and> read_file (fs (snd (fetchInventoryImage airgapped_packages example_od stale_world)))
         (catalog_file example_od)
       = read_file (fs stale_world) (catalog_file example_od)
   \<and> read_file (fs stale_world) (catalog_file example_od) = Some ''DB0''"
proof -
  have c: "checkImageCache airgapped_packages example_od stale_world
     = (Inr (''c/digest.d1'', ''c/metadata.digest.d2''),
        \<lparr>fs = [(''c/plugin_inventory.db'', ''DB0'')],
         calls = [Probe ''img'', Probe ''meta''], logs = []\<rparr>)"
    by code_simp
  have v: "VerifyInventoryImageSignature airgapped_packages (image example_od) = None"
    and t1: "MkdirTemp airgapped_packages 1 = None"
    and t2: "MkdirTemp airgapped_packages 2 = None"
    and d1: "DownloadImageAndSaveFilesToDir airgapped_packages (image example_od)
             = Inr [(''plugin_inventory.db'', ''DB1'')]"
    and d2: "DownloadImageAndSaveFilesToDir airgapped_packages
               (GetPluginInventoryMetadataImage airgapped_packages (image example_od))
             = Inr [(''plugin_inventory_metadata.db'', ''M1'')]"
    and u: "UpdatePluginInventoryDatabase airgapped_packages
              (map_of [(''plugin_inventory_metadata.db'', ''M1'')] SQliteInventoryMetadataDBFileName)
              (map_of [(''plugin_inventory.db'', ''DB1'')] SQliteDBFileName)
            = Inl (Opaque ''merge failed'')"
    by code_simp+
  have r: "read_file (fs stale_world) (catalog_file example_od) = Some ''DB0''"
    by code_simp
  have e: "fetchInventoryImage airgapped_packages example_od stale_world
     = (Some (ErrorUpdatingInventoryDatabase (Opaque ''merge failed'')),
        \<lparr>fs = [(''c/plugin_inventory.db'', ''DB0'')],
         calls = [Probe ''img'', Probe ''meta'', Verify ''img'', Download ''img'',
                  Download ''meta'', Merge],
         logs = [ReadingPluginInventory ''img'']\<rparr>)"
    by code_simp
  from merge_failure_keeps_catalog [OF c _ v t1 t2 d1 d2 u] r e show ?thesis by simp
qed

text \<open>
  A cache with a catalog and the markers of an older digest, a registry with a metadata
  image, and an update that fails: the call fails and both markers are gone.
\<close>

theorem merge_failure_deletes_stale_markers:
  "DownloadImageAndSaveFilesToDir airgapped_packages
       (GetPluginInventoryMetadataImage airgapped_packages (image example_od))
     = Inr [(''plugin_inventory_metadata.db'', ''M1'')]
   \<and> fst (fetchInventoryImage airgapped_packages example_od stale_world)
       = Some (ErrorUpdatingInventoryDatabase (Opaque ''merge failed''))
   \<and> read_file (fs stale_world) ''c/digest.d0'' = Some []
   \<and> read_file (fs stale_world) ''c/metadata.digest.none'' = Some []
   \<and> read_file (fs (snd (fetchInventoryImage airgapped_packages example_od stale_world)))
         ''c/digest.d0'' = None
   \<and> read_file (fs (snd (fetchInventoryImage airgapped_packages example_od stale_world)))
         ''c/metadata.digest.none'' = None"
  by code_simp


section \<open>Repeating the refresh check\<close>

lemma glob_star_split:
  "glob_star lit p \<longleftrightarrow> (\<exists>rest. p = lit @ rest \<and> CHR ''/'' \<notin> set rest)"
proof
  assume g: "glob_star lit p"
  then have "p = lit @ drop (length lit) p"
    by (metis append_take_drop_id glob_star_def)
  with g show "\<exists>rest. p = lit @ rest \<and> CHR ''/'' \<notin> set rest"
    unfolding glob_star_def by blast
next
  assume "\<exists>rest. p = lit @ rest \<and> CHR ''/'' \<notin> set rest"
  then show "glob_star lit p" by (auto simp: glob_star_def)
qed

lemma glob_disjoint:
  "\<not> (glob_star (digest_glob od []) p \<and> glob_star (digest_glob od ''metadata.'') p)"
  by (auto simp: glob_star_split digest_glob_def filepath_Join_def)






lemma Glob_unmatch_other:
  assumes "\<And>q. glob_star lit q \<Longrightarrow> \<not> glob_star lit' q"
  shows "filepath_Glob lit (filter (\<lambda>e. \<not> glob_star lit' (fst e)) files) = filepath_Glob lit files"
  using assms by (induction files) (auto simp: filepath_Glob_def)


lemma checkImageCache_leaves:
  assumes "GetImageDigest pk (image od) = Inr h"
    and "checkImageCache pk od w = (Inr (f1, f2), w1)"
  shows "(f1 = [] \<or> f1 = marker_file od [] h)
       \<and> (f2 = [] \<or> f2 = marker_file od ''metadata.'' (metadataHash pk od))
       \<and> filepath_Glob (digest_glob od []) (fs w1) = (if f1 = [] then [marker_file od [] h] else [])
       \<and> filepath_Glob (digest_glob od ''metadata.'') (fs w1)
           = (if f2 = [] then [marker_file od ''metadata.'' (metadataHash pk od)] else [])"
proof -
  let ?G1 = "digest_glob od []" and ?G2 = "digest_glob od ''metadata.''"
  from checkImageCache_success [OF assms(1), of w] obtain g1 g2 v1 v2 where
    s: "checkImageCache pk od w = (Inr (g1, g2), v2)"
    and a: "checkDigestFileExistence od h [] (called (Probe (image od)) w) = (g1, v1)"
    and b: "checkDigestFileExistence od (metadataHash pk od) ''metadata.''
       (called (Probe (GetPluginInventoryMetadataImage pk (image od))) v1) = (g2, v2)"
    by (elim exE conjE)
  from s assms(2) have eq: "g1 = f1" "g2 = f2" "v2 = w1" by simp_all
  note ra = checkDigestFileExistence_result [OF a]
  note rb = checkDigestFileExistence_result [OF b]
  have dis: "\<not> glob_star ?G2 q" if "glob_star ?G1 q" for q
    using that glob_disjoint [of od q] by blast
  have g1v1: "filepath_Glob ?G1 (fs v1) = (if g1 = [] then [marker_file od [] h] else [])"
  proof (cases "g1 = []")
    case True
    with ra(3) show ?thesis by simp
  next
    case False
    with ra(4) show ?thesis by (simp add: Glob_unmatch)
  qed
  have g1v2: "filepath_Glob ?G1 (fs v2) = filepath_Glob ?G1 (fs v1)"
  proof (cases "g2 = []")
    case True
    with rb(3) show ?thesis by simp
  next
    case False
    with rb(4) show ?thesis by (simp add: Glob_unmatch_other [OF dis])
  qed
  have g2v2: "filepath_Glob ?G2 (fs v2)
      = (if g2 = [] then [marker_file od ''metadata.'' (metadataHash pk od)] else [])"
  proof (cases "g2 = []")
    case True
    with rb(3) show ?thesis by simp
  next
    case False
    with rb(4) show ?thesis by (simp add: Glob_unmatch)
  qed
  from ra(2) rb(2) g1v1 g1v2 g2v2 show ?thesis unfolding eq [symmetric] by simp
qed







section \<open>Absence of the overlay\<close>

lemma read_file_write_file:
  "read_file (write_file p bytes files) q = (if q = p then Some bytes else read_file files q)"
  using read_file_remove_file [of p files q] by (simp add: write_file_def read_file_def)

lemma marker_file_not_catalog:
  "marker_file od pre v \<noteq> catalog_file od" if "pre = [] \<or> pre = ''metadata.''"
  using that
  by (auto simp: marker_file_def catalog_file_def filepath_Join_def SQliteDBFileName_def)

lemma read_file_catalog_os_Create:
  assumes "f \<noteq> catalog_file od"
  shows "read_file (fs (fst (os_Create pk f v))) (catalog_file od) = read_file (fs v) (catalog_file od)"
  using assms by (simp add: fs_os_Create read_file_write_file)

lemma checkDigestFileExistence_returns:
  "fst (checkDigestFileExistence od v pre w)
   = (if filepath_Glob (digest_glob od pre) (fs w) = [marker_file od pre v] then []
      else marker_file od pre v)"
proof (cases "filepath_Glob (digest_glob od pre) (fs w)" rule: list_three_cases)
  case many
  then have "filepath_Glob (digest_glob od pre) (fs w) \<noteq> [marker_file od pre v]" by auto
  with checkDigestFileExistence_many [OF many, of v] show ?thesis by simp
next
  case (one m)
  with checkDigestFileExistence_one [OF one, of v] show ?thesis by simp
next
  case none
  with checkDigestFileExistence_none [OF none, of v] show ?thesis by simp
qed

lemma checkImageCache_overlay_marker:
  assumes "GetImageDigest pk (image od) = Inr h"
    and "checkImageCache pk od w = (Inr (f1, f2), w1)"
  shows "f2 = (if filepath_Glob (digest_glob od ''metadata.'') (fs w)
                    = [marker_file od ''metadata.'' (metadataHash pk od)]
               then [] else marker_file od ''metadata.'' (metadataHash pk od))"
proof -
  let ?G1 = "digest_glob od []" and ?G2 = "digest_glob od ''metadata.''"
  from checkImageCache_success [OF assms(1), of w] obtain g1 g2 v1 v2 where
    s: "checkImageCache pk od w = (Inr (g1, g2), v2)"
    and a: "checkDigestFileExistence od h [] (called (Probe (image od)) w) = (g1, v1)"
    and b: "checkDigestFileExistence od (metadataHash pk od) ''metadata.''
       (called (Probe (GetPluginInventoryMetadataImage pk (image od))) v1) = (g2, v2)"
    by (elim exE conjE)
  from s assms(2) have eq: "g2 = f2" by simp
  note ra = checkDigestFileExistence_result [OF a]
  have dis: "\<not> glob_star ?G1 q" if "glob_star ?G2 q" for q
    using that glob_disjoint [of od q] by blast
  have keep: "filepath_Glob ?G2 (fs v1) = filepath_Glob ?G2 (fs w)"
  proof (cases "g1 = []")
    case True
    with ra(3) show ?thesis by simp
  next
    case False
    with ra(4) show ?thesis by (simp add: Glob_unmatch_other [OF dis])
  qed
  have "g2 = fst (checkDigestFileExistence od (metadataHash pk od) ''metadata.''
       (called (Probe (GetPluginInventoryMetadataImage pk (image od))) v1))"
    by (simp only: b fst_conv)
  then show ?thesis
    unfolding eq [symmetric] checkDigestFileExistence_returns by (simp add: keep)
qed

lemma downloadInventoryDatabase_overlay:
  assumes "MkdirTemp pk 1 = None" "MkdirTemp pk 2 = None"
    and "DownloadImageAndSaveFilesToDir pk (image od) = Inr tempDir1"
    and "DownloadImageAndSaveFilesToDir pk (GetPluginInventoryMetadataImage pk (image od)) = Inr tempDir2"
  shows "calls (snd (downloadInventoryDatabase pk od w))
         = calls w @ [Download (image od),
                      Download (GetPluginInventoryMetadataImage pk (image od)), Merge]"
  using assms
  by (simp add: downloadInventoryDatabase_def CopyFile_def Let_def
        split: option.splits sum.splits)

text \<open>
  Claim C5, as the code has it. With a base image whose digest is known: when the
  digest probe of the metadata image fails, \<open>checkImageCache\<close> still succeeds and goes by
  the marker \<open>metadata.digest.none\<close> (it returns the empty path when that marker is the
  only metadata marker of the cache, and the path of that marker otherwise); when the
  download of the metadata image fails (and the signature is trusted, the temporary
  directories exist and the base image is downloaded with its database),
  \<open>fetchInventoryImage\<close> returns no error, the update by the metadata database is never
  called, and whenever the cache check asked for a refresh the catalog file of the cache
  holds the bytes of the downloaded base database, unmodified; and when the download of
  the metadata image succeeds in a refresh, the update by the metadata database is
  called, whatever the probe returned.
\<close>

theorem overlay_absence_is_no_error:
  assumes "GetImageDigest pk (image od) = Inr h"
  shows "(\<forall>e. GetImageDigest pk (GetPluginInventoryMetadataImage pk (image od)) = Inl e \<longrightarrow>
            (\<exists>f1 w1. checkImageCache pk od w
               = (Inr (f1,
                       if filepath_Glob (digest_glob od ''metadata.'') (fs w)
                            = [filepath_Join (pluginDataDir od) ''metadata.digest.none'']
                       then [] else filepath_Join (pluginDataDir od) ''metadata.digest.none''),
                  w1)))
       \<and> (\<forall>e tempDir1 db.
            DownloadImageAndSaveFilesToDir pk (GetPluginInventoryMetadataImage pk (image od)) = Inl e
            \<and> VerifyInventoryImageSignature pk (image od) = None
            \<and> MkdirTemp pk 1 = None \<and> MkdirTemp pk 2 = None
            \<and> DownloadImageAndSaveFilesToDir pk (image od) = Inr tempDir1
            \<and> map_of tempDir1 SQliteDBFileName = Some db \<longrightarrow>
              fst (fetchInventoryImage pk od w) = None
            \<and> Merge \<notin> set (drop (length (calls w)) (calls (snd (fetchInventoryImage pk od w))))
            \<and> (fst (checkImageCache pk od w) \<noteq> Inr ([], []) \<longrightarrow>
                 read_file (fs (snd (fetchInventoryImage pk od w))) (catalog_file od) = Some db))
       \<and> (\<forall>tempDir1 tempDir2.
            DownloadImageAndSaveFilesToDir pk (GetPluginInventoryMetadataImage pk (image od))
              = Inr tempDir2
            \<and> VerifyInventoryImageSignature pk (image od) = None
            \<and> MkdirTemp pk 1 = None \<and> MkdirTemp pk 2 = None
            \<and> DownloadImageAndSaveFilesToDir pk (image od) = Inr tempDir1
            \<and> fst (checkImageCache pk od w) \<noteq> Inr ([], []) \<longrightarrow>
              Merge \<in> set (drop (length (calls w)) (calls (snd (fetchInventoryImage pk od w)))))"
proof -
  from checkImageCache_success [OF assms, of w] obtain f1 f2 w1 where
    c: "checkImageCache pk od w = (Inr (f1, f2), w1)"
    by (elim exE conjE)
  have cw1: "calls w1 = calls w @ [Probe (image od), Probe (GetPluginInventoryMetadataImage pk (image od))]"
    by (rule checkImageCache_calls [OF c])
  from checkImageCache_leaves [OF assms c]
  have f1: "f1 = [] \<or> f1 = marker_file od [] h"
    and f2: "f2 = [] \<or> f2 = marker_file od ''metadata.'' (metadataHash pk od)"
    by blast+
  let ?w2 = "called (Verify (image od)) (logged (ReadingPluginInventory (image od)) w1)"
  have part1: "\<exists>f1 w1. checkImageCache pk od w
               = (Inr (f1,
                       if filepath_Glob (digest_glob od ''metadata.'') (fs w)
                            = [filepath_Join (pluginDataDir od) ''metadata.digest.none'']
                       then [] else filepath_Join (pluginDataDir od) ''metadata.digest.none''),
                  w1)"
    if "GetImageDigest pk (GetPluginInventoryMetadataImage pk (image od)) = Inl e" for e
  proof -
    from that have "metadataHash pk od = []" by (simp add: metadataHash_def)
    then have "marker_file od ''metadata.'' (metadataHash pk od)
               = filepath_Join (pluginDataDir od) ''metadata.digest.none''"
      by (simp add: marker_file_def)
    with checkImageCache_overlay_marker [OF assms c] c show ?thesis by simp
  qed
  have part2: "fst (fetchInventoryImage pk od w) = None
            \<and> Merge \<notin> set (drop (length (calls w)) (calls (snd (fetchInventoryImage pk od w))))
            \<and> (fst (checkImageCache pk od w) \<noteq> Inr ([], []) \<longrightarrow>
                 read_file (fs (snd (fetchInventoryImage pk od w))) (catalog_file od) = Some db)"
    if d2: "DownloadImageAndSaveFilesToDir pk (GetPluginInventoryMetadataImage pk (image od)) = Inl e"
      and v: "VerifyInventoryImageSignature pk (image od) = None"
      and t: "MkdirTemp pk 1 = None" "MkdirTemp pk 2 = None"
      and d1: "DownloadImageAndSaveFilesToDir pk (image od) = Inr tempDir1"
      and db: "map_of tempDir1 SQliteDBFileName = Some db"
    for e tempDir1 db
  proof (cases "f1 = [] \<and> f2 = []")
    case True
    with c fetchInventoryImage_current [of pk od w w1] cw1 show ?thesis by simp
  next
    case False
    let ?w3 = "(called (Download (GetPluginInventoryMetadataImage pk (image od)))
         (called (Download (image od)) ?w2))\<lparr>fs := write_file (catalog_file od) db (fs w1)\<rparr>"
    let ?w4 = "(if f1 \<noteq> [] then (\<lambda>v. fst (os_Create pk f1 v)) else id) ?w3"
    let ?w5 = "(if f2 \<noteq> [] then (\<lambda>v. fst (os_Create pk f2 v)) else id) ?w4"
    have dl: "downloadInventoryDatabase pk od ?w2 = (None, ?w3)"
      using downloadInventoryDatabase_no_overlay [OF t d1 d2, of ?w2] db
      by (simp add: CopyFile_def)
    from False have tr: "f1 \<noteq> [] \<or> f2 \<noteq> []" by blast
    have f: "fetchInventoryImage pk od w = (None, ?w5)"
      using fetchInventoryImage_refresh [OF c tr] v dl by (simp add: Let_def)
    have n1: "f1 \<noteq> catalog_file od" and n2: "f2 \<noteq> catalog_file od"
      using f1 f2 marker_file_not_catalog [of "[]" od h]
        marker_file_not_catalog [of "''metadata.''" od "metadataHash pk od"]
      by (auto simp: catalog_file_def filepath_Join_def)
    have calls5: "calls ?w5 = calls w1 @ [Verify (image od), Download (image od),
        Download (GetPluginInventoryMetadataImage pk (image od))]"
      by simp
    have fs3: "read_file (fs ?w3) (catalog_file od) = Some db"
      by (simp add: read_file_write_file)
    have fs4: "read_file (fs ?w4) (catalog_file od) = Some db"
      using fs3 read_file_catalog_os_Create [OF n1, of pk ?w3] by simp
    have fs5: "read_file (fs ?w5) (catalog_file od) = Some db"
      using fs4 read_file_catalog_os_Create [OF n2, of pk ?w4] by simp
    show ?thesis unfolding f fst_conv snd_conv using calls5 fs5 cw1 by simp
  qed
  have part3: "Merge \<in> set (drop (length (calls w)) (calls (snd (fetchInventoryImage pk od w))))"
    if d2: "DownloadImageAndSaveFilesToDir pk (GetPluginInventoryMetadataImage pk (image od))
              = Inr tempDir2"
      and v: "VerifyInventoryImageSignature pk (image od) = None"
      and t: "MkdirTemp pk 1 = None" "MkdirTemp pk 2 = None"
      and d1: "DownloadImageAndSaveFilesToDir pk (image od) = Inr tempDir1"
      and tr0: "fst (checkImageCache pk od w) \<noteq> Inr ([], [])"
    for tempDir1 tempDir2
  proof -
    from tr0 c have tr: "f1 \<noteq> [] \<or> f2 \<noteq> []" by auto
    obtain r3 w3 where d: "downloadInventoryDatabase pk od ?w2 = (r3, w3)"
      by (cases "downloadInventoryDatabase pk od ?w2")
    have c3: "calls w3 = calls ?w2 @ [Download (image od),
                      Download (GetPluginInventoryMetadataImage pk (image od)), Merge]"
      using downloadInventoryDatabase_overlay [OF t d1 d2, of ?w2] d by simp
    have "calls (snd (fetchInventoryImage pk od w)) = calls w3"
      using fetchInventoryImage_refresh [OF c tr] v d
      by (cases r3) (simp_all add: Let_def)
    with c3 cw1 show ?thesis by simp
  qed
  from part1 part2 part3 show ?thesis by blast
qed

theorem overlay_absence_is_no_error_witness:
  "GetImageDigest example_packages (image example_od) = Inr ''d1''
   \<and> fst (checkImageCache example_packages example_od empty_world)
       = Inr (''c/digest.d1'', ''c/metadata.digest.none'')
   \<and> fst (fetchInventoryImage example_packages example_od stale_world) = None
   \<and> Merge \<notin> set (calls (snd (fetchInventoryImage example_packages example_od stale_world)))
   \<and> read_file (fs (snd (fetchInventoryImage example_packages example_od stale_world)))
        (catalog_file example_od) = Some ''DB1''
   \<and> Merge \<in> set (calls (snd (fetchInventoryImage flaky_packages example_od stale_world)))"
proof -
  have h: "GetImageDigest example_packages (image example_od) = Inr ''d1''"
    by code_simp
  have p: "GetImageDigest example_packages
             (GetPluginInventoryMetadataImage example_packages (image example_od))
           = Inl (Opaque ''not found'')"
    and d2: "DownloadImageAndSaveFilesToDir example_packages
               (GetPluginInventoryMetadataImage example_packages (image example_od))
             = Inl (Opaque ''not found'')"
    and v: "VerifyInventoryImageSignature example_packages (image example_od) = None"
    and t1: "MkdirTemp example_packages 1 = None"
    and t2: "MkdirTemp example_packages 2 = None"
    and d1: "DownloadImageAndSaveFilesToDir example_packages (image example_od)
             = Inr [(''plugin_inventory.db'', ''DB1'')]"
    and db: "map_of [(''plugin_inventory.db'', ''DB1'')] SQliteDBFileName = Some ''DB1''"
    by code_simp+
  have g: "filepath_Glob (digest_glob example_od ''metadata.'') (fs empty_world) = []"
    and j: "filepath_Join (pluginDataDir example_od) ''metadata.digest.none''
            = ''c/metadata.digest.none''"
    by code_simp+
  have c: "fst (checkImageCache example_packages example_od stale_world)
           = Inr (''c/digest.d1'', [])"
    by code_simp
  have s: "calls stale_world = []" by code_simp
  have e1: "fst (checkImageCache example_packages example_od empty_world)
       = Inr (''c/digest.d1'', ''c/metadata.digest.none'')"
    by code_simp
  from overlay_absence_is_no_error [OF h, of empty_world] p g j
  have "\<exists>f1 w1. checkImageCache example_packages example_od empty_world
          = (Inr (f1, ''c/metadata.digest.none''), w1)"
    by simp
  from overlay_absence_is_no_error [OF h, of stale_world] d2 v t1 t2 d1 db c s
  have a: "fst (fetchInventoryImage example_packages example_od stale_world) = None
     \<and> Merge \<notin> set (calls (snd (fetchInventoryImage example_packages example_od stale_world)))
     \<and> read_file (fs (snd (fetchInventoryImage example_packages example_od stale_world)))
          (catalog_file example_od) = Some ''DB1''"
    by simp
  have hf: "GetImageDigest flaky_packages (image example_od) = Inr ''d1''"
    and d2f: "DownloadImageAndSaveFilesToDir flaky_packages
               (GetPluginInventoryMetadataImage flaky_packages (image example_od))
             = Inr [(''plugin_inventory_metadata.db'', ''M1'')]"
    and vf: "VerifyInventoryImageSignature flaky_packages (image example_od) = None"
    and t1f: "MkdirTemp flaky_packages 1 = None"
    and t2f: "MkdirTemp flaky_packages 2 = None"
    and d1f: "DownloadImageAndSaveFilesToDir flaky_packages (image example_od)
             = Inr [(''plugin_inventory.db'', ''DB1'')]"
    and cf: "fst (checkImageCache flaky_packages example_od stale_world)
           = Inr (''c/digest.d1'', [])"
    by code_simp+
  from overlay_absence_is_no_error [OF hf, of stale_world] d2f vf t1f t2f d1f cf s
  have b: "Merge \<in> set (calls (snd (fetchInventoryImage flaky_packages example_od stale_world)))"
    by simp
  from h e1 a b show ?thesis by simp
qed

text \<open>
  A metadata image whose digest cannot be probed but which can be downloaded: the cache
  check goes by \<open>metadata.digest.none\<close>, the update by the metadata database is applied,
  and the catalog that is promoted is not the base database; and where that update
  fails, the call fails.
\<close>

theorem overlay_probe_failure_still_merges:
  "GetImageDigest flaky_packages
       (GetPluginInventoryMetadataImage flaky_packages (image example_od))
     = Inl (Opaque ''not found'')
   \<and> DownloadImageAndSaveFilesToDir flaky_packages (image example_od)
       = Inr [(''plugin_inventory.db'', ''DB1'')]
   \<and> fst (fetchInventoryImage flaky_packages example_od stale_world) = None
   \<and> read_file (fs (snd (fetchInventoryImage flaky_packages example_od stale_world)))
        (catalog_file example_od) = Some ''DB1+M1''
   \<and> fst (fetchInventoryImage
            (flaky_packages\<lparr>UpdatePluginInventoryDatabase := (\<lambda>m d. Inl (Opaque ''merge failed''))\<rparr>)
            example_od stale_world)
       = Some (ErrorUpdatingInventoryDatabase (Opaque ''merge failed''))
   \<and> read_file (fs (snd (fetchInventoryImage
            (flaky_packages\<lparr>UpdatePluginInventoryDatabase := (\<lambda>m d. Inl (Opaque ''merge failed''))\<rparr>)
            example_od stale_world)))
        (catalog_file example_od) = Some ''DB0''"
  by code_simp

section \<open>Properties of the queries\<close>

lemma mset_insert_version: "mset (insert_version pk x ys) = add_mset x (mset ys)"
  by (induction ys) simp_all

lemma mset_SortVersions: "mset (fst (SortVersions pk vs)) = mset vs"
  by (induction vs) (simp_all add: SortVersions_def mset_insert_version)

lemma first_parse_error_Some:
  assumes "v \<in> set vs" and "NewVersion pk v = Inl e"
  shows "\<exists>e'. first_parse_error pk vs = Some e'"
  using assms by (induction vs) (auto split: sum.splits)

lemma discoverEntry_plugin:
  "fst (discoverEntry pk od entry w) =
     \<lparr>Discovered.Name = PluginInventoryEntry.Name entry,
      Description = PluginInventoryEntry.Description entry,
      RecommendedVersion = PluginInventoryEntry.RecommendedVersion entry,
      InstalledVersion = [],
      SupportedVersions = fst (SortVersions pk (map fst (Artifacts entry))),
      Distribution = Artifacts entry,
      Optional = False,
      Scope = PluginScopeStandalone pk,
      Source = name od,
      ContextName = [],
      DiscoveryType = DiscoveryTypeOCI pk,
      Target = PluginInventoryEntry.Target entry,
      Status = PluginStatusNotInstalled pk\<rparr>"
  by (simp add: discoverEntry_def split_def Let_def)

lemma discoverEntry_world:
  "snd (discoverEntry pk od entry w) =
     (case snd (SortVersions pk (map fst (Artifacts entry))) of
        None \<Rightarrow> w
      | Some e \<Rightarrow> logged (ErrorParsingVersions (PluginInventoryEntry.Name entry) e) w)"
  by (simp add: discoverEntry_def split_def Let_def)

lemma discoverEntries_plugins:
  "fst (discoverEntries pk od entries acc w)
   = acc @ map (\<lambda>entry. fst (discoverEntry pk od entry w0)) entries"
proof (induction entries arbitrary: acc w)
  case Nil
  show ?case by simp
next
  case (Cons entry entries)
  have "fst (discoverEntry pk od entry w) = fst (discoverEntry pk od entry w0)"
    by (simp only: discoverEntry_plugin)
  with Cons [of "acc @ [fst (discoverEntry pk od entry w)]" "snd (discoverEntry pk od entry w)"]
  show ?case by (simp add: split_def)
qed

lemma discoverEntries_world:
  "fs (snd (discoverEntries pk od entries acc w)) = fs w
   \<and> calls (snd (discoverEntries pk od entries acc w)) = calls w
   \<and> set (logs w) \<subseteq> set (logs (snd (discoverEntries pk od entries acc w)))
   \<and> (\<forall>entry \<in> set entries. \<forall>e.
         snd (SortVersions pk (map fst (Artifacts entry))) = Some e \<longrightarrow>
         ErrorParsingVersions (PluginInventoryEntry.Name entry) e
           \<in> set (logs (snd (discoverEntries pk od entries acc w))))"
proof (induction entries arbitrary: acc w)
  case Nil
  show ?case by simp
next
  case (Cons entry entries)
  let ?w' = "snd (discoverEntry pk od entry w)"
  let ?acc' = "acc @ [fst (discoverEntry pk od entry w)]"
  have step: "discoverEntries pk od (entry # entries) acc w = discoverEntries pk od entries ?acc' ?w'"
    by (simp add: split_def Let_def)
  have w': "fs ?w' = fs w" "calls ?w' = calls w" "set (logs w) \<subseteq> set (logs ?w')"
    and here: "\<And>e. snd (SortVersions pk (map fst (Artifacts entry))) = Some e \<Longrightarrow>
         ErrorParsingVersions (PluginInventoryEntry.Name entry) e \<in> set (logs ?w')"
    by (auto simp: discoverEntry_world split: option.splits)
  from Cons [of ?acc' ?w'] w' here show ?case
    unfolding step by auto
qed

lemma listPluginsFromInventory_entries:
  assumes "GetPlugins (inventory od) (fs w) (pluginFilter pk od) = Inr entries"
  shows "listPluginsFromInventory pk od w
         = (Inr (map (\<lambda>entry. fst (discoverEntry pk od entry w)) entries),
            snd (discoverEntries pk od entries [] w))"
  using assms discoverEntries_plugins [of pk od entries "[]" w w]
  by (simp add: listPluginsFromInventory_def split_def)

lemma listPluginsFromInventory_error:
  assumes "GetPlugins (inventory od) (fs w) (pluginFilter pk od) = Inl err"
  shows "listPluginsFromInventory pk od w = (Inl err, w)"
  using assms by (simp add: listPluginsFromInventory_def)

lemma listPluginsFromInventory_world:
  "fs (snd (listPluginsFromInventory pk od w)) = fs w
   \<and> calls (snd (listPluginsFromInventory pk od w)) = calls w"
proof (cases "GetPlugins (inventory od) (fs w) (pluginFilter pk od)")
  case (Inl err)
  then show ?thesis by (simp add: listPluginsFromInventory_error)
next
  case (Inr entries)
  with discoverEntries_world [of pk od entries "[]" w] show ?thesis
    by (simp add: listPluginsFromInventory_entries)
qed

lemma List_results:
  assumes "fst (List pk od w) = Inr plugins"
  shows "\<exists>w1 entries. GetPlugins (inventory od) (fs w1) (pluginFilter pk od) = Inr entries
           \<and> plugins = map (\<lambda>entry. fst (discoverEntry pk od entry w1)) entries"
proof -
  from assms obtain w1 where l: "fst (listPluginsFromInventory pk od w1) = Inr plugins"
    by (auto simp: List_def split: if_splits option.splits prod.splits)
  show ?thesis
  proof (cases "GetPlugins (inventory od) (fs w1) (pluginFilter pk od)")
    case (Inl err)
    with l show ?thesis by (simp add: listPluginsFromInventory_error)
  next
    case (Inr entries)
    with l show ?thesis by (auto simp: listPluginsFromInventory_entries)
  qed
qed

text \<open>
  Claim C7, as the code has it. Every plugin that a successful \<open>List\<close> returns has the
  name of the discovery as its source and the OCI discovery type, an empty installed
  version and an empty context name, and as its status the constant
  \<open>common.PluginStatusNotInstalled\<close>, which the code assigns by name.
\<close>

theorem discovered_provenance_and_runtime_fields:
  assumes "fst (List pk od w) = Inr plugins" and "p \<in> set plugins"
  shows "Source p = name od \<and> DiscoveryType p = DiscoveryTypeOCI pk
       \<and> InstalledVersion p = [] \<and> ContextName p = []
       \<and> Status p = PluginStatusNotInstalled pk"
proof -
  from List_results [OF assms(1)] assms(2) obtain w1 entry where
    "p = fst (discoverEntry pk od entry w1)" by auto
  then show ?thesis by (simp add: discoverEntry_plugin)
qed

theorem discovered_provenance_and_runtime_fields_witness:
  "fst (List example_packages example_od stale_world)
     = Inr [\<lparr>Discovered.Name = ''builder'', Description = ''Build'',
              RecommendedVersion = ''v1.10.0'', InstalledVersion = [],
              SupportedVersions = [''v1.2.0'', ''v1.10.0'', ''bogus''],
              Distribution = [(''v1.2.0'', ()), (''bogus'', ()), (''v1.10.0'', ())],
              Optional = False, Scope = ''Standalone'', Source = ''default'',
              ContextName = [], DiscoveryType = ''oci'', Target = ''global'',
              Status = ''not installed''\<rparr>,
            \<lparr>Discovered.Name = ''test'', Description = ''Test'',
              RecommendedVersion = ''v0.1.0'', InstalledVersion = [],
              SupportedVersions = [''v0.1.0''],
              Distribution = [(''v0.1.0'', ())], Optional = False,
              Scope = ''Standalone'', Source = ''default'', ContextName = [],
              DiscoveryType = ''oci'', Target = ''global'',
              Status = ''not installed''\<rparr>]
   \<and> name example_od = ''default''
   \<and> DiscoveryTypeOCI example_packages = ''oci''
   \<and> PluginStatusNotInstalled example_packages = ''not installed''"
proof -
  let ?p1 = "\<lparr>Discovered.Name = ''builder'', Description = ''Build'',
              RecommendedVersion = ''v1.10.0'', InstalledVersion = [],
              SupportedVersions = [''v1.2.0'', ''v1.10.0'', ''bogus''],
              Distribution = [(''v1.2.0'', ()), (''bogus'', ()), (''v1.10.0'', ())],
              Optional = False, Scope = ''Standalone'', Source = ''default'',
              ContextName = [], DiscoveryType = ''oci'', Target = ''global'',
              Status = ''not installed''\<rparr>"
  let ?p2 = "\<lparr>Discovered.Name = ''test'', Description = ''Test'',
              RecommendedVersion = ''v0.1.0'', InstalledVersion = [],
              SupportedVersions = [''v0.1.0''],
              Distribution = [(''v0.1.0'', ())], Optional = False,
              Scope = ''Standalone'', Source = ''default'', ContextName = [],
              DiscoveryType = ''oci'', Target = ''global'',
              Status = ''not installed''\<rparr>"
  have l: "fst (List example_packages example_od stale_world) = Inr [?p1, ?p2]"
    by code_simp
  have m: "?p1 \<in> set [?p1, ?p2]" by simp
  from discovered_provenance_and_runtime_fields [OF l m] l show ?thesis by simp
qed


text \<open>
  With the status of a plugin that is not installed being \<open>not installed\<close>, the status
  of every plugin listed is that text and not the empty string.
\<close>

theorem discovered_status_is_not_empty:
  "PluginStatusNotInstalled example_packages = ''not installed''
   \<and> isl (fst (List example_packages example_od stale_world)) = False
   \<and> map Status (projr (fst (List example_packages example_od stale_world)))
       = [''not installed'', ''not installed'']
   \<and> Status (hd (projr (fst (List example_packages example_od stale_world)))) \<noteq> []"
  by code_simp

text \<open>
  Claim C8. With \<open>useLocalCacheOnly\<close> set, \<open>List\<close> and \<open>GetGroups\<close> are the queries of
  the store on the file system as it is: no probe, verification, download or update is
  called and the file system does not change.
\<close>

theorem local_cache_only_skips_refresh:
  assumes "useLocalCacheOnly od"
  shows "List pk od w = listPluginsFromInventory pk od w
       \<and> fst (List pk od w)
           = (case GetPlugins (inventory od) (fs w) (pluginFilter pk od) of
                Inl err \<Rightarrow> Inl err
              | Inr entries \<Rightarrow> Inr (map (\<lambda>entry. fst (discoverEntry pk od entry w)) entries))
       \<and> calls (snd (List pk od w)) = calls w
       \<and> fs (snd (List pk od w)) = fs w
       \<and> GetGroups pk od w = (GetPluginGroups (inventory od) (fs w) (groupFilter pk od), w)"
proof -
  have l: "List pk od w = listPluginsFromInventory pk od w"
    using assms by (simp add: List_def)
  have g: "GetGroups pk od w = (GetPluginGroups (inventory od) (fs w) (groupFilter pk od), w)"
    using assms by (simp add: GetGroups_def listGroupsFromInventory_def)
  have r: "fst (listPluginsFromInventory pk od w)
           = (case GetPlugins (inventory od) (fs w) (pluginFilter pk od) of
                Inl err \<Rightarrow> Inl err
              | Inr entries \<Rightarrow> Inr (map (\<lambda>entry. fst (discoverEntry pk od entry w)) entries))"
    by (cases "GetPlugins (inventory od) (fs w) (pluginFilter pk od)")
      (simp_all add: listPluginsFromInventory_error listPluginsFromInventory_entries)
  from l g r listPluginsFromInventory_world [of pk od w] show ?thesis by simp
qed

theorem local_cache_only_skips_refresh_witness:
  "useLocalCacheOnly (example_od\<lparr>useLocalCacheOnly := True\<rparr>)
   \<and> calls (snd (List example_packages (example_od\<lparr>useLocalCacheOnly := True\<rparr>) stale_world)) = []
   \<and> fs (snd (List example_packages (example_od\<lparr>useLocalCacheOnly := True\<rparr>) stale_world))
       = [(''c/plugin_inventory.db'', ''DB0''), (''c/digest.d0'', []), (''c/metadata.digest.none'', [])]
   \<and> GetGroups example_packages (example_od\<lparr>useLocalCacheOnly := True\<rparr>) stale_world
       = (Inr [''vmware-tkg/default:v1.0.0''], stale_world)"
proof -
  have u: "useLocalCacheOnly (example_od\<lparr>useLocalCacheOnly := True\<rparr>)" by simp
  have c: "calls stale_world = []"
    and f: "fs stale_world
       = [(''c/plugin_inventory.db'', ''DB0''), (''c/digest.d0'', []), (''c/metadata.digest.none'', [])]"
    and g: "GetPluginGroups (inventory (example_od\<lparr>useLocalCacheOnly := True\<rparr>)) (fs stale_world)
              (groupFilter example_packages (example_od\<lparr>useLocalCacheOnly := True\<rparr>))
            = Inr [''vmware-tkg/default:v1.0.0'']"
    by code_simp+
  let ?od = "example_od\<lparr>useLocalCacheOnly := True\<rparr>"
  from local_cache_only_skips_refresh [OF u, of example_packages stale_world]
  have "calls (snd (List example_packages ?od stale_world)) = calls stale_world"
    and "fs (snd (List example_packages ?od stale_world)) = fs stale_world"
    and "GetGroups example_packages ?od stale_world
         = (GetPluginGroups (inventory ?od) (fs stale_world) (groupFilter example_packages ?od),
            stale_world)"
    by blast+
  with c f g u show ?thesis by simp
qed

text \<open>
  Claim C9. For the entries that the store returns, \<open>listPluginsFromInventory\<close> returns
  no error and one plugin for each entry; the supported versions of each plugin are the
  keys of the artifact map of its entry, each as often as it is a key, whether or not
  they parse; and for an entry with a key that does not parse as a version, a line that
  names the entry is written to standard error.
\<close>

theorem unparseable_versions_are_kept:
  assumes "GetPlugins (inventory od) (fs w) (pluginFilter pk od) = Inr entries"
  shows "\<exists>plugins w'. listPluginsFromInventory pk od w = (Inr plugins, w')
       \<and> length plugins = length entries
       \<and> (\<forall>i<length entries.
            mset (SupportedVersions (plugins ! i)) = mset (map fst (Artifacts (entries ! i)))
          \<and> ((\<exists>v \<in> set (map fst (Artifacts (entries ! i))). isl (NewVersion pk v)) \<longrightarrow>
               (\<exists>e. ErrorParsingVersions (PluginInventoryEntry.Name (entries ! i)) e
                      \<in> set (logs w'))))"
proof -
  let ?plugins = "map (\<lambda>entry. fst (discoverEntry pk od entry w)) entries"
  let ?w' = "snd (discoverEntries pk od entries [] w)"
  have l: "listPluginsFromInventory pk od w = (Inr ?plugins, ?w')"
    by (rule listPluginsFromInventory_entries [OF assms])
  have "mset (SupportedVersions (?plugins ! i)) = mset (map fst (Artifacts (entries ! i)))
      \<and> ((\<exists>v \<in> set (map fst (Artifacts (entries ! i))). isl (NewVersion pk v)) \<longrightarrow>
           (\<exists>e. ErrorParsingVersions (PluginInventoryEntry.Name (entries ! i)) e \<in> set (logs ?w')))"
    if i: "i < length entries" for i
  proof
    show "mset (SupportedVersions (?plugins ! i)) = mset (map fst (Artifacts (entries ! i)))"
      using i by (simp add: discoverEntry_plugin mset_SortVersions)
    show "(\<exists>v \<in> set (map fst (Artifacts (entries ! i))). isl (NewVersion pk v)) \<longrightarrow>
           (\<exists>e. ErrorParsingVersions (PluginInventoryEntry.Name (entries ! i)) e \<in> set (logs ?w'))"
    proof
      assume "\<exists>v \<in> set (map fst (Artifacts (entries ! i))). isl (NewVersion pk v)"
      then obtain v e where "v \<in> set (map fst (Artifacts (entries ! i)))" "NewVersion pk v = Inl e"
        by (auto simp: isl_def)
      from first_parse_error_Some [OF this] obtain e' where
        "snd (SortVersions pk (map fst (Artifacts (entries ! i)))) = Some e'"
        by (auto simp: SortVersions_def)
      moreover have "entries ! i \<in> set entries" using i by simp
      ultimately show "\<exists>e. ErrorParsingVersions (PluginInventoryEntry.Name (entries ! i)) e
                         \<in> set (logs ?w')"
        using discoverEntries_world [of pk od entries "[]" w] by blast
    qed
  qed
  with l show ?thesis by (intro exI [of _ ?plugins] exI [of _ ?w']) simp
qed

theorem unparseable_versions_are_kept_witness:
  "isl (NewVersion example_packages ''bogus'')
   \<and> (\<exists>plugins w'. listPluginsFromInventory example_packages example_od current_world
                     = (Inr plugins, w')
        \<and> length plugins = 2
        \<and> mset (SupportedVersions (plugins ! 0)) = mset [''v1.2.0'', ''bogus'', ''v1.10.0'']
        \<and> (\<exists>e. ErrorParsingVersions ''builder'' e \<in> set (logs w')))"
proof -
  let ?e1 = "\<lparr>PluginInventoryEntry.Name = ''builder'', Target = ''global'',
                  Description = ''Build'', RecommendedVersion = ''v1.10.0'',
                  Artifacts = [(''v1.2.0'', ()), (''bogus'', ()), (''v1.10.0'', ())]\<rparr>"
  let ?e2 = "\<lparr>PluginInventoryEntry.Name = ''test'', Target = ''global'',
                  Description = ''Test'', RecommendedVersion = ''v0.1.0'',
                  Artifacts = [(''v0.1.0'', ())]\<rparr>"
  have g: "GetPlugins (inventory example_od) (fs current_world)
             (pluginFilter example_packages example_od) = Inr [?e1, ?e2]"
    by code_simp
  have b: "isl (NewVersion example_packages ''bogus'')"
    by code_simp
  from unparseable_versions_are_kept [OF g] obtain plugins w' where
    l: "listPluginsFromInventory example_packages example_od current_world = (Inr plugins, w')"
    and n: "length plugins = length [?e1, ?e2]"
    and a: "\<forall>i<length [?e1, ?e2].
            mset (SupportedVersions (plugins ! i)) = mset (map fst (Artifacts ([?e1, ?e2] ! i)))
          \<and> ((\<exists>v \<in> set (map fst (Artifacts ([?e1, ?e2] ! i))). isl (NewVersion example_packages v)) \<longrightarrow>
               (\<exists>e. ErrorParsingVersions (PluginInventoryEntry.Name ([?e1, ?e2] ! i)) e
                      \<in> set (logs w')))"
    by blast
  from a [rule_format, of 0] b
  have "mset (SupportedVersions (plugins ! 0)) = mset [''v1.2.0'', ''bogus'', ''v1.10.0'']"
    and "\<exists>e. ErrorParsingVersions ''builder'' e \<in> set (logs w')"
    by simp_all
  with l n b show ?thesis by simp
qed

text \<open>
  Claim C10. When \<open>GetPlugins\<close> returns entries, \<open>listPluginsFromInventory\<close> returns as
  many plugins, and the plugin at each position carries the name, target, description,
  recommended version and artifacts of the entry at that position. When \<open>GetPlugins\<close>
  returns an error, \<open>listPluginsFromInventory\<close> returns that error, no plugin, and the
  world as it was.
\<close>

theorem listPluginsFromInventory_one_per_entry:
  "(\<forall>entries. GetPlugins (inventory od) (fs w) (pluginFilter pk od) = Inr entries \<longrightarrow>
      (\<exists>plugins w'. listPluginsFromInventory pk od w = (Inr plugins, w')
         \<and> length plugins = length entries
         \<and> (\<forall>i<length entries.
              Discovered.Name (plugins ! i) = PluginInventoryEntry.Name (entries ! i)
            \<and> Discovered.Target (plugins ! i) = PluginInventoryEntry.Target (entries ! i)
            \<and> Discovered.Description (plugins ! i) = PluginInventoryEntry.Description (entries ! i)
            \<and> Discovered.RecommendedVersion (plugins ! i)
                = PluginInventoryEntry.RecommendedVersion (entries ! i)
            \<and> Distribution (plugins ! i) = Artifacts (entries ! i))))
   \<and> (\<forall>err. GetPlugins (inventory od) (fs w) (pluginFilter pk od) = Inl err \<longrightarrow>
         listPluginsFromInventory pk od w = (Inl err, w))"
proof (intro conjI allI impI)
  fix entries
  assume g: "GetPlugins (inventory od) (fs w) (pluginFilter pk od) = Inr entries"
  let ?plugins = "map (\<lambda>entry. fst (discoverEntry pk od entry w)) entries"
  let ?w' = "snd (discoverEntries pk od entries [] w)"
  have l: "listPluginsFromInventory pk od w = (Inr ?plugins, ?w')"
    by (rule listPluginsFromInventory_entries [OF g])
  then show "\<exists>plugins w'. listPluginsFromInventory pk od w = (Inr plugins, w')
         \<and> length plugins = length entries
         \<and> (\<forall>i<length entries.
              Discovered.Name (plugins ! i) = PluginInventoryEntry.Name (entries ! i)
            \<and> Discovered.Target (plugins ! i) = PluginInventoryEntry.Target (entries ! i)
            \<and> Discovered.Description (plugins ! i) = PluginInventoryEntry.Description (entries ! i)
            \<and> Discovered.RecommendedVersion (plugins ! i)
                = PluginInventoryEntry.RecommendedVersion (entries ! i)
            \<and> Distribution (plugins ! i) = Artifacts (entries ! i))"
    by (intro exI [of _ ?plugins] exI [of _ ?w']) (simp add: discoverEntry_plugin)
next
  fix err
  assume "GetPlugins (inventory od) (fs w) (pluginFilter pk od) = Inl err"
  then show "listPluginsFromInventory pk od w = (Inl err, w)"
    by (rule listPluginsFromInventory_error)
qed

theorem listPluginsFromInventory_one_per_entry_witness:
  "(\<exists>plugins w'. listPluginsFromInventory example_packages example_od current_world
                   = (Inr plugins, w')
      \<and> length plugins = 2
      \<and> Discovered.Name (plugins ! 0) = ''builder''
      \<and> Discovered.Name (plugins ! 1) = ''test''
      \<and> Distribution (plugins ! 1) = [(''v0.1.0'', ())])
   \<and> GetPlugins (inventory example_od) (fs empty_world)
        (pluginFilter example_packages example_od) = Inl (Opaque ''no database'')
   \<and> listPluginsFromInventory example_packages example_od empty_world
       = (Inl (Opaque ''no database''), empty_world)"
proof -
  let ?e1 = "\<lparr>PluginInventoryEntry.Name = ''builder'', Target = ''global'',
                  Description = ''Build'', RecommendedVersion = ''v1.10.0'',
                  Artifacts = [(''v1.2.0'', ()), (''bogus'', ()), (''v1.10.0'', ())]\<rparr>"
  let ?e2 = "\<lparr>PluginInventoryEntry.Name = ''test'', Target = ''global'',
                  Description = ''Test'', RecommendedVersion = ''v0.1.0'',
                  Artifacts = [(''v0.1.0'', ())]\<rparr>"
  have g: "GetPlugins (inventory example_od) (fs current_world)
             (pluginFilter example_packages example_od) = Inr [?e1, ?e2]"
    by code_simp
  have n: "GetPlugins (inventory example_od) (fs empty_world)
        (pluginFilter example_packages example_od) = Inl (Opaque ''no database'')"
    by code_simp
  from listPluginsFromInventory_one_per_entry [of example_od current_world example_packages] g
  obtain plugins w' where
    l: "listPluginsFromInventory example_packages example_od current_world = (Inr plugins, w')"
    and k: "length plugins = length [?e1, ?e2]"
    and a: "\<forall>i<length [?e1, ?e2].
              Discovered.Name (plugins ! i) = PluginInventoryEntry.Name ([?e1, ?e2] ! i)
            \<and> Discovered.Target (plugins ! i) = PluginInventoryEntry.Target ([?e1, ?e2] ! i)
            \<and> Discovered.Description (plugins ! i) = PluginInventoryEntry.Description ([?e1, ?e2] ! i)
            \<and> Discovered.RecommendedVersion (plugins ! i)
                = PluginInventoryEntry.RecommendedVersion ([?e1, ?e2] ! i)
            \<and> Distribution (plugins ! i) = Artifacts ([?e1, ?e2] ! i)"
    by blast
  from a [rule_format, of 0] a [rule_format, of 1]
  have "Discovered.Name (plugins ! 0) = ''builder''" "Discovered.Name (plugins ! 1) = ''test''"
    "Distribution (plugins ! 1) = [(''v0.1.0'', ())]"
    by simp_all
  moreover from listPluginsFromInventory_one_per_entry [of example_od empty_world example_packages] n
  have "listPluginsFromInventory example_packages example_od empty_world
       = (Inl (Opaque ''no database''), empty_world)"
    by blast
  ultimately show ?thesis using l k n by simp
qed

end
